theory Spec2Isabelle
  imports Complex_Main "HOL-Library.AList"
begin

section \<open>Data model (models.py)\<close>

text \<open>
  A Python \<open>datetime\<close> is held as its number of microseconds since the epoch, so that
  comparison is integer comparison and the difference of two of them is a
  \<open>timedelta\<close> in microseconds. Free-form JSON payloads (\<open>dict\<close>, \<open>Any\<close>) are held as
  their text. Python integers are unbounded, hence \<open>int\<close>.

  Every pydantic model is a record. Field names are prefixed with the model they belong
  to, since the models share field names (\<open>dag_id\<close>, \<open>run_id\<close>, \<open>state\<close>, ...).
\<close>

type_synonym datetime = int
type_synonym json = string

text \<open>
  A Python \<open>dict\<close> keeps its keys in insertion order; assigning to a key that is present
  keeps the key's position, assigning to a new key appends it. This is an association
  list with \<^const>\<open>AList.update\<close>.
\<close>

type_synonym ('k, 'v) dict = "('k \<times> 'v) list"

definition dict_get :: "('k, 'v) dict \<Rightarrow> 'k \<Rightarrow> 'v option" where
  \<comment> \<open>\<open>d.get(k)\<close>\<close>
  "dict_get d k = map_of d k"

definition dict_get_or :: "('k, ('a \<times> 'b) list) dict \<Rightarrow> 'k \<Rightarrow> ('a \<times> 'b) list" where
  \<comment> \<open>\<open>d.get(k, {})\<close>\<close>
  "dict_get_or d k = (case map_of d k of None \<Rightarrow> [] | Some v \<Rightarrow> v)"

definition dict_contains :: "'k \<Rightarrow> ('k, 'v) dict \<Rightarrow> bool" where
  \<comment> \<open>\<open>k in d\<close>\<close>
  "dict_contains k d = (map_of d k \<noteq> None)"

definition dict_set :: "('k, 'v) dict \<Rightarrow> 'k \<Rightarrow> 'v \<Rightarrow> ('k, 'v) dict" where
  \<comment> \<open>\<open>d[k] = v\<close>\<close>
  "dict_set d k v = AList.update k v d"

definition dict_setdefault_empty ::
  "('k, ('a \<times> 'b) list) dict \<Rightarrow> 'k \<Rightarrow> ('k, ('a \<times> 'b) list) dict" where
  \<comment> \<open>\<open>if k not in d: d[k] = {}\<close>\<close>
  "dict_setdefault_empty d k = (if \<not> dict_contains k d then dict_set d k [] else d)"

definition dict_values :: "('k, 'v) dict \<Rightarrow> 'v list" where
  \<comment> \<open>\<open>d.values()\<close>, in insertion order\<close>
  "dict_values d = map snd d"

definition dict_del :: "('k, 'v) dict \<Rightarrow> 'k \<Rightarrow> ('k, 'v) dict option" where
  \<comment> \<open>\<open>del d[k]\<close>; \<open>None\<close> is the \<open>KeyError\<close>\<close>
  "dict_del d k = (if dict_contains k d then Some (AList.delete k d) else None)"

record DAG =
  dag_dag_id :: string
  dag_is_paused :: bool
  dag_is_active :: bool
  dag_last_parsed_time :: datetime
  dag_last_pickled :: datetime
  dag_last_expired :: datetime
  dag_scheduler_lock :: "bool option"
  dag_pickle_id :: "string option"
  dag_fileloc :: string
  dag_owners :: "string list"
  dag_description :: "string option"
  dag_schedule_interval :: "json option"
  dag_tags :: "json list"

record DAGRun =
  run_dag_id :: string
  run_run_id :: string
  run_execution_date :: datetime
  run_start_date :: "datetime option"
  run_end_date :: "datetime option"
  run_state :: string
  run_external_trigger :: bool
  run_conf :: json

record TaskInstance =
  ti_task_id :: string
  ti_dag_id :: string
  ti_run_id :: string
  ti_state :: string
  ti_try_number :: int
  ti_max_tries :: int
  ti_start_date :: "datetime option"
  ti_end_date :: "datetime option"
  ti_duration :: "real option"
  ti_pool :: string
  ti_queue :: string
  ti_priority_weight :: int
  ti_operator :: string
  ti_queued_when :: "datetime option"
  ti_queued_by_job_id :: "string option"
  ti_pid :: "int option"
  ti_executor_config :: json
  ti_sla_miss :: "datetime option"
  ti_rendered_fields :: json

record TaskInstanceActionResponse =
  resp_task_id :: string
  resp_dag_id :: string
  resp_run_id :: string
  resp_state :: string
  resp_message :: string

record TaskLog =
  log_try_number :: int
  log_content :: string
  log_timestamp :: datetime

record ClearTaskInstance =
  clr_dry_run :: bool
  clr_start_date :: "datetime option"
  clr_end_date :: "datetime option"
  clr_only_failed :: bool
  clr_only_running :: bool
  clr_include_subdags :: bool
  clr_include_parentdag :: bool
  clr_reset_dag_runs :: bool

record Variable =
  var_key :: string
  var_value :: string
  var_description :: "string option"

record Connection =
  conn_conn_id :: string
  conn_conn_type :: string
  conn_host :: "string option"
  conn_port :: "int option"
  conn_login :: "string option"
  conn_password :: "string option"
  conn_connection_schema :: "string option"
  conn_extra :: "json option"

record XCom =
  xcom_key :: string
  xcom_value :: json
  xcom_timestamp :: datetime
  xcom_execution_date :: datetime
  xcom_task_id :: string
  xcom_dag_id :: string
  xcom_run_id :: "string option"
  xcom_description :: "string option"

record Pool =
  pool_name :: string
  pool_slots :: int
  pool_description :: "string option"
  pool_occupied_slots :: int
  pool_queued_slots :: int
  pool_running_slots :: int
  pool_open_slots :: "int option"

text \<open>
  \<open>Pool.__init__(**data)\<close>: pydantic fills the fields from the data (with the defaults
  \<open>occupied_slots = queued_slots = running_slots = 0\<close>, \<open>open_slots = None\<close> for what the
  data omits), then \<open>open_slots\<close> is overwritten with \<open>slots - occupied_slots\<close>.
  \<open>PoolData\<close> is the keyword data: the required fields and the optional ones.
\<close>

record PoolData =
  pd_name :: string
  pd_slots :: int
  pd_description :: "string option"
  pd_occupied_slots :: "int option"
  pd_queued_slots :: "int option"
  pd_running_slots :: "int option"
  pd_open_slots :: "int option"

definition or_default :: "'a option \<Rightarrow> 'a \<Rightarrow> 'a" where
  "or_default v d = (case v of None \<Rightarrow> d | Some x \<Rightarrow> x)"

definition Pool_fields :: "PoolData \<Rightarrow> Pool" where
  \<comment> \<open>\<open>super().__init__(**data)\<close>\<close>
  "Pool_fields data =
     \<lparr> pool_name = pd_name data,
       pool_slots = pd_slots data,
       pool_description = pd_description data,
       pool_occupied_slots = or_default (pd_occupied_slots data) 0,
       pool_queued_slots = or_default (pd_queued_slots data) 0,
       pool_running_slots = or_default (pd_running_slots data) 0,
       pool_open_slots = pd_open_slots data \<rparr>"

definition Pool_init :: "PoolData \<Rightarrow> Pool" where
  "Pool_init data =
     (let self = Pool_fields data
      in self\<lparr>pool_open_slots := Some (pool_slots self - pool_occupied_slots self)\<rparr>)"

record ProviderHook =
  hook_hook_class_name :: string
  hook_connection_type :: string
  hook_hook_name :: string
  hook_package_name :: string
  hook_description :: "string option"

record Provider =
  prov_package_name :: string
  prov_description :: "string option"
  prov_version :: string
  prov_provider_name :: string
  prov_hooks :: "ProviderHook list"
  prov_extra_links :: "string list"
  prov_connection_form :: "json option"

section \<open>The instance store (store.py)\<close>

record InstanceStore =
  instance_id :: string
  dags :: "(string, DAG) dict"
  dag_runs :: "(string, (string, DAGRun) dict) dict"
  task_instances :: "(string, (string, (string, TaskInstance) dict) dict) dict"
  task_logs :: "(string, (string, (string, (int, TaskLog) dict) dict) dict) dict"
  variables :: "(string, Variable) dict"
  connections :: "(string, Connection) dict"
  xcoms :: "(string, (string, (string, (string, XCom) dict) dict) dict) dict"
  pools :: "(string, Pool) dict"
  providers :: "(string, Provider) dict"

definition InstanceStore_init :: "string \<Rightarrow> InstanceStore" where
  "InstanceStore_init iid =
     \<lparr> instance_id = iid, dags = [], dag_runs = [], task_instances = [], task_logs = [],
       variables = [], connections = [], xcoms = [], pools = [], providers = [] \<rparr>"

definition add_dag :: "InstanceStore \<Rightarrow> DAG \<Rightarrow> InstanceStore" where
  "add_dag s dag = s\<lparr>dags := dict_set (dags s) (dag_dag_id dag) dag\<rparr>"

definition get_dag :: "InstanceStore \<Rightarrow> string \<Rightarrow> DAG option" where
  "get_dag s d = dict_get (dags s) d"

definition add_dag_run :: "InstanceStore \<Rightarrow> DAGRun \<Rightarrow> InstanceStore" where
  "add_dag_run s dag_run =
     (let m0 = dict_setdefault_empty (dag_runs s) (run_dag_id dag_run);
          m1 = dict_get_or m0 (run_dag_id dag_run)
      in s\<lparr>dag_runs := dict_set m0 (run_dag_id dag_run)
                           (dict_set m1 (run_run_id dag_run) dag_run)\<rparr>)"

definition get_dag_run :: "InstanceStore \<Rightarrow> string \<Rightarrow> string \<Rightarrow> DAGRun option" where
  "get_dag_run s d r = dict_get (dict_get_or (dag_runs s) d) r"

definition add_task_instance :: "InstanceStore \<Rightarrow> TaskInstance \<Rightarrow> InstanceStore" where
  "add_task_instance s ti =
     (let d = ti_dag_id ti; r = ti_run_id ti; t = ti_task_id ti;
          m0 = dict_setdefault_empty (task_instances s) d;
          m1 = dict_setdefault_empty (dict_get_or m0 d) r;
          m2 = dict_get_or m1 r
      in s\<lparr>task_instances := dict_set m0 d (dict_set m1 r (dict_set m2 t ti))\<rparr>)"

definition get_task_instance ::
  "InstanceStore \<Rightarrow> string \<Rightarrow> string \<Rightarrow> string \<Rightarrow> TaskInstance option" where
  "get_task_instance s d r t =
     dict_get (dict_get_or (dict_get_or (task_instances s) d) r) t"

definition get_task_instances :: "InstanceStore \<Rightarrow> string \<Rightarrow> string \<Rightarrow> TaskInstance list" where
  "get_task_instances s d r =
     dict_values (dict_get_or (dict_get_or (task_instances s) d) r)"

definition add_task_log ::
  "InstanceStore \<Rightarrow> string \<Rightarrow> string \<Rightarrow> string \<Rightarrow> int \<Rightarrow> TaskLog \<Rightarrow> InstanceStore" where
  "add_task_log s d r t n task_log =
     (let m0 = dict_setdefault_empty (task_logs s) d;
          m1 = dict_setdefault_empty (dict_get_or m0 d) r;
          m2 = dict_setdefault_empty (dict_get_or m1 r) t;
          m3 = dict_get_or m2 t
      in s\<lparr>task_logs := dict_set m0 d (dict_set m1 r (dict_set m2 t (dict_set m3 n task_log)))\<rparr>)"

definition get_task_log ::
  "InstanceStore \<Rightarrow> string \<Rightarrow> string \<Rightarrow> string \<Rightarrow> int \<Rightarrow> TaskLog option" where
  "get_task_log s d r t n =
     dict_get (dict_get_or (dict_get_or (dict_get_or (task_logs s) d) r) t) n"

text \<open>
  \<open>add_xcom_value\<close> creates the three outer levels in any case and stores the entry only
  under a truthy \<open>run_id\<close> (neither \<open>None\<close> nor the empty string).
\<close>

definition truthy_str :: "string option \<Rightarrow> bool" where
  "truthy_str v = (case v of None \<Rightarrow> False | Some x \<Rightarrow> x \<noteq> [])"

definition add_xcom_value :: "InstanceStore \<Rightarrow> XCom \<Rightarrow> InstanceStore" where
  "add_xcom_value s xcom =
     (let d = xcom_dag_id xcom; t = xcom_task_id xcom; k = xcom_key xcom;
          m0 = dict_setdefault_empty (xcoms s) d;
          m1 = dict_setdefault_empty (dict_get_or m0 d) t;
          m2 = dict_setdefault_empty (dict_get_or m1 t) k;
          m3 = dict_get_or m2 k;
          m3' = (if truthy_str (xcom_run_id xcom)
                 then dict_set m3 (the (xcom_run_id xcom)) xcom else m3)
      in s\<lparr>xcoms := dict_set m0 d (dict_set m1 t (dict_set m2 k m3'))\<rparr>)"

text \<open>
  Python's \<open>max(xs, key=f)\<close> on a non-empty sequence: the running maximum is replaced
  only by an element whose key is strictly greater, so the first of several maximal
  elements is returned.
\<close>

fun max_from :: "('a \<Rightarrow> int) \<Rightarrow> 'a \<Rightarrow> 'a list \<Rightarrow> 'a" where
  "max_from f best [] = best"
| "max_from f best (x # xs) = max_from f (if f x > f best then x else best) xs"

definition py_max :: "('a \<Rightarrow> int) \<Rightarrow> 'a list \<Rightarrow> 'a option" where
  \<comment> \<open>\<open>None\<close> is the \<open>ValueError\<close> on an empty sequence\<close>
  "py_max f xs = (case xs of [] \<Rightarrow> None | x # rest \<Rightarrow> Some (max_from f x rest))"

definition xcom_entries ::
  "InstanceStore \<Rightarrow> string \<Rightarrow> string \<Rightarrow> string \<Rightarrow> (string, XCom) dict" where
  \<comment> \<open>\<open>self.xcoms.get(dag_id, {}).get(task_id, {}).get(key, {})\<close>\<close>
  "xcom_entries s d t k = dict_get_or (dict_get_or (dict_get_or (xcoms s) d) t) k"

definition xcom_values :: "InstanceStore \<Rightarrow> string \<Rightarrow> string \<Rightarrow> string \<Rightarrow> XCom list" where
  \<comment> \<open>\<open>... .values()\<close>: the entries of \<open>(dag_id, task_id, key)\<close>, in the order their
      runs were first stored\<close>
  "xcom_values s d t k = dict_values (xcom_entries s d t k)"

definition get_xcom_value ::
  "InstanceStore \<Rightarrow> string \<Rightarrow> string \<Rightarrow> string \<Rightarrow> string option \<Rightarrow> XCom option" where
  "get_xcom_value s d t k run_id =
     (if truthy_str run_id
      then dict_get (xcom_entries s d t k) (the run_id)
      else (let xs = xcom_values s d t k
            in if xs = [] then None else py_max xcom_timestamp xs))"

definition add_pool :: "InstanceStore \<Rightarrow> Pool \<Rightarrow> InstanceStore" where
  "add_pool s pool = s\<lparr>pools := dict_set (pools s) (pool_name pool) pool\<rparr>"

definition get_pool :: "InstanceStore \<Rightarrow> string \<Rightarrow> Pool option" where
  "get_pool s name = dict_get (pools s) name"

text \<open>
  \<open>update_pool_slots\<close> mutates the pool object that the dictionary holds under \<open>name\<close>
  and returns it; \<open>None\<close> when there is no such pool. The store-level defaults of the
  three counts are \<open>0\<close>.
\<close>

definition update_pool_slots ::
  "InstanceStore \<Rightarrow> string \<Rightarrow> int \<Rightarrow> int \<Rightarrow> int \<Rightarrow> Pool option \<times> InstanceStore" where
  "update_pool_slots s name occupied queued running =
     (case get_pool s name of
        Some pool \<Rightarrow>
          (let p1 = pool\<lparr>pool_occupied_slots := occupied\<rparr>;
               p2 = p1\<lparr>pool_queued_slots := queued\<rparr>;
               p3 = p2\<lparr>pool_running_slots := running\<rparr>;
               p4 = p3\<lparr>pool_open_slots := Some (pool_slots p3 - pool_occupied_slots p3)\<rparr>
           in (Some p4, s\<lparr>pools := dict_set (pools s) name p4\<rparr>))
      | None \<Rightarrow> (None, s))"

definition add_variable :: "InstanceStore \<Rightarrow> Variable \<Rightarrow> InstanceStore" where
  "add_variable s v = s\<lparr>variables := dict_set (variables s) (var_key v) v\<rparr>"

definition get_variable :: "InstanceStore \<Rightarrow> string \<Rightarrow> Variable option" where
  "get_variable s k = dict_get (variables s) k"

definition add_connection :: "InstanceStore \<Rightarrow> Connection \<Rightarrow> InstanceStore" where
  "add_connection s c = s\<lparr>connections := dict_set (connections s) (conn_conn_id c) c\<rparr>"

definition get_connection :: "InstanceStore \<Rightarrow> string \<Rightarrow> Connection option" where
  "get_connection s cid = dict_get (connections s) cid"

definition add_provider :: "InstanceStore \<Rightarrow> Provider \<Rightarrow> InstanceStore" where
  "add_provider s p = s\<lparr>providers := dict_set (providers s) (prov_package_name p) p\<rparr>"

definition get_provider :: "InstanceStore \<Rightarrow> string \<Rightarrow> Provider option" where
  "get_provider s name = dict_get (providers s) name"

text \<open>
  A task instance handed to the store is the object that the store already holds at
  the place it was read from, so a mutation of it is seen there. \<open>write_task_instance\<close>
  is that in-place write at the place \<open>(dag_id, run_id, task_id)\<close> the object was read
  from; the place exists, so no key is added and no position changes.
\<close>

definition write_task_instance ::
  "InstanceStore \<Rightarrow> string \<Rightarrow> string \<Rightarrow> string \<Rightarrow> TaskInstance \<Rightarrow> InstanceStore" where
  "write_task_instance s d r t ti =
     (let m0 = task_instances s; m1 = dict_get_or m0 d; m2 = dict_get_or m1 r
      in s\<lparr>task_instances := dict_set m0 d (dict_set m1 r (dict_set m2 t ti))\<rparr>)"

definition clear_task_instance ::
  "InstanceStore \<Rightarrow> string \<Rightarrow> string \<Rightarrow> string \<Rightarrow> TaskInstance
     \<Rightarrow> TaskInstance \<times> InstanceStore" where
  \<comment> \<open>\<open>d r t\<close>: where the object \<open>task_instance\<close> lives in the store\<close>
  "clear_task_instance s d r t task_instance =
     (let t1 = task_instance\<lparr>ti_state := ''none''\<rparr>;
          t2 = t1\<lparr>ti_try_number := 1\<rparr>;
          t3 = t2\<lparr>ti_start_date := None\<rparr>;
          t4 = t3\<lparr>ti_end_date := None\<rparr>;
          t5 = t4\<lparr>ti_duration := None\<rparr>
      in (t5, add_task_instance (write_task_instance s d r t t5) t5))"

section \<open>The instance registry (store.py, server.py)\<close>

record MockStore =
  instances :: "(string, InstanceStore) dict"

definition MockStore_init :: MockStore where
  "MockStore_init = \<lparr> instances = [] \<rparr>"

definition get_instance :: "MockStore \<Rightarrow> string \<Rightarrow> InstanceStore \<times> MockStore" where
  "get_instance ms iid =
     (let ms' = (if \<not> dict_contains iid (instances ms)
                 then ms\<lparr>instances := dict_set (instances ms) iid (InstanceStore_init iid)\<rparr>
                 else ms)
      in (the (dict_get (instances ms') iid), ms'))"

definition list_instances :: "MockStore \<Rightarrow> string list" where
  "list_instances ms = map fst (instances ms)"

text \<open>
  A request served for instance \<open>iid\<close> works on the store object that the registry
  holds for \<open>iid\<close>: what the handler \<open>f\<close> does to the store is done to the registry's
  entry.
\<close>

definition on_instance ::
  "MockStore \<Rightarrow> string \<Rightarrow> (InstanceStore \<Rightarrow> 'a \<times> InstanceStore) \<Rightarrow> 'a \<times> MockStore" where
  "on_instance ms iid f =
     (let (s, ms1) = get_instance ms iid; (res, s') = f s
      in (res, ms1\<lparr>instances := dict_set (instances ms1) iid s'\<rparr>))"

text \<open>
  A \<open>uvicorn.Server\<close> is held as the port of its configuration and whether it has been
  shut down. The process has two globals: \<open>server\<close> (the \<open>MockServer\<close>) and \<open>store\<close>
  (the \<open>MockStore\<close>).
\<close>

record Server =
  srv_port :: int
  srv_shut_down :: bool

record MockServer =
  servers :: "(string, Server) dict"

record Process =
  server :: MockServer
  store :: MockStore

definition stop_instance :: "Process \<Rightarrow> string \<Rightarrow> Process" where
  "stop_instance p iid =
     (if dict_contains iid (servers (server p))
      then p\<lparr>server := (server p)\<lparr>servers := AList.delete iid (servers (server p))\<rparr>\<rparr>
      else p)"

section \<open>The request contract layer (api.py)\<close>

text \<open>
  A handler returns its result or the error it raises, and the store as the request leaves
  it. An \<open>HTTPException\<close> carries its status code (404 NotFound, 409 Conflict, 422 for a
  request the framework rejects on validation, 500) and its detail. A \<open>NameError\<close> is
  what evaluating a name that is bound nowhere raises; the framework answers it with 500.

  \<open>datetime.utcnow()\<close> is read from a clock: \<open>now k\<close> is what the \<open>k\<close>-th call of the
  request returns (counted from 0).

  The handlers are named \<open>api_\<close> and the handler's name in api.py, and take the store of
  the application (the \<open>instance_store\<close> that \<open>create_app\<close> looked up) as their first
  argument.
\<close>

datatype error = HTTPException (status_code: int) (detail: string) | NameError string

type_synonym clock = "nat \<Rightarrow> datetime"

definition tick :: "clock \<Rightarrow> clock" where
  "tick now = (\<lambda>k. now (Suc k))"

definition total_seconds :: "int \<Rightarrow> real" where
  \<comment> \<open>\<open>timedelta.total_seconds()\<close> of a difference in microseconds\<close>
  "total_seconds us = real_of_int us / 1000000"

definition digit_char :: "nat \<Rightarrow> char" where
  \<comment> \<open>the decimal digit of a number below 10\<close>
  "digit_char n = ''0123456789'' ! n"

fun str_nat :: "nat \<Rightarrow> string" where
  "str_nat n =
     (if n < 10 then [digit_char n]
      else str_nat (n div 10) @ [digit_char (n mod 10)])"

declare str_nat.simps [simp del]

definition str_int :: "int \<Rightarrow> string" where
  \<comment> \<open>\<open>str(i)\<close> as an f-string renders an integer\<close>
  "str_int i = (if i < 0 then CHR ''-'' # str_nat (nat (- i)) else str_nat (nat i))"

definition datetime_truthy :: "datetime \<Rightarrow> bool" where
  \<comment> \<open>a \<open>datetime\<close> object is always true in a condition\<close>
  "datetime_truthy d = True"

definition api_create_dag_run ::
  "InstanceStore \<Rightarrow> clock \<Rightarrow> (datetime \<Rightarrow> string) \<Rightarrow> string \<Rightarrow> DAGRun
     \<Rightarrow> (error + DAGRun) \<times> InstanceStore" where
  \<comment> \<open>\<open>strftime\<close> renders a datetime as \<open>%Y-%m-%dT%H:%M:%S\<close>\<close>
  "api_create_dag_run s now strftime dag_id dag_run =
     (if \<not> dict_contains dag_id (dags s)
      then (Inl (HTTPException 404 ''DAG not found''), s)
      else
        (let r0 = dag_run\<lparr>run_dag_id := dag_id\<rparr>;
             (r1, now1) =
               (if run_run_id r0 = []
                then (r0\<lparr>run_run_id := ''manual__'' @ strftime (now 0)\<rparr>, tick now)
                else (r0, now));
             (r2, now2) =
               (if \<not> datetime_truthy (run_execution_date r1)
                then (r1\<lparr>run_execution_date := now1 0\<rparr>, tick now1)
                else (r1, now1));
             r3 =
               (if run_start_date r2 = None
                then r2\<lparr>run_start_date := Some (now2 0)\<rparr>
                else r2)
         in (Inr r3, add_dag_run s r3)))"

definition api_set_task_instance_state ::
  "InstanceStore \<Rightarrow> clock \<Rightarrow> string \<Rightarrow> string \<Rightarrow> string \<Rightarrow> string
     \<Rightarrow> (error + TaskInstanceActionResponse) \<times> InstanceStore" where
  "api_set_task_instance_state s now dag_id run_id task_id state =
     (case get_task_instance s dag_id run_id task_id of
        None \<Rightarrow> (Inl (HTTPException 404 ''Task instance not found''), s)
      | Some task_instance \<Rightarrow>
          (let t1 = task_instance\<lparr>ti_state := state\<rparr>;
               t2 =
                 (if state = ''running''
                  then t1\<lparr>ti_start_date := Some (now 0), ti_end_date := None\<rparr>
                  else if state \<in> set [''success'', ''failed'', ''skipped'']
                  then
                    (let (a, now1) =
                           (if ti_start_date t1 = None
                            then (t1\<lparr>ti_start_date := Some (now 0)\<rparr>, tick now)
                            else (t1, now));
                         b = a\<lparr>ti_end_date := Some (now1 0)\<rparr>
                     in (case ti_start_date b of
                           Some sd \<Rightarrow>
                             b\<lparr>ti_duration :=
                                 Some (total_seconds (the (ti_end_date b) - sd))\<rparr>
                         | None \<Rightarrow> b))
                  else t1);
               s1 = write_task_instance s dag_id run_id task_id t2;
               s2 = add_task_instance s1 t2
           in (Inr \<lparr> resp_task_id = task_id, resp_dag_id = dag_id, resp_run_id = run_id,
                      resp_state = state,
                      resp_message = ''Task instance state set to '' @ state \<rparr>,
               s2)))"

definition api_clear_task_instance ::
  "InstanceStore \<Rightarrow> string \<Rightarrow> string \<Rightarrow> string \<Rightarrow> ClearTaskInstance
     \<Rightarrow> (error + TaskInstanceActionResponse) \<times> InstanceStore" where
  "api_clear_task_instance s dag_id run_id task_id clear_request =
     (case get_task_instance s dag_id run_id task_id of
        None \<Rightarrow> (Inl (HTTPException 404 ''Task instance not found''), s)
      | Some task_instance \<Rightarrow>
          (let c0 = True;
               c1 = (if clr_only_failed clear_request \<and> ti_state task_instance \<noteq> ''failed''
                     then False else c0);
               should_clear =
                    (if clr_only_running clear_request \<and> ti_state task_instance \<noteq> ''running''
                     then False else c1);
               (ti', s', message) =
                 (if should_clear \<and> \<not> clr_dry_run clear_request
                  then (let (ti1, s1) = clear_task_instance s dag_id run_id task_id task_instance
                        in (ti1, s1, ''Task instance cleared''))
                  else (task_instance, s,
                        ''Task instance not cleared (dry run or filter conditions not met)''))
           in (Inr \<lparr> resp_task_id = task_id, resp_dag_id = dag_id, resp_run_id = run_id,
                      resp_state = ti_state ti', resp_message = message \<rparr>,
               s')))"

definition api_get_task_logs ::
  "InstanceStore \<Rightarrow> clock \<Rightarrow> string \<Rightarrow> string \<Rightarrow> string \<Rightarrow> int
     \<Rightarrow> (error + TaskLog) \<times> InstanceStore" where
  \<comment> \<open>\<open>try_number: int = Path(..., ge=1)\<close>: a smaller one is rejected before the handler runs\<close>
  "api_get_task_logs s now dag_id run_id task_id try_number =
     (if \<not> 1 \<le> try_number
      then (Inl (HTTPException 422 ''try_number: ensure this value is greater than or equal to 1''), s)
      else
        (case get_task_log s dag_id run_id task_id try_number of
           Some task_log \<Rightarrow> (Inr task_log, s)
         | None \<Rightarrow>
             (let task_log =
                    \<lparr> log_try_number = try_number,
                      log_content = ''No logs found for task '' @ task_id @ '' (try ''
                                      @ str_int try_number @ '')'',
                      log_timestamp = now 0 \<rparr>
              in (Inr task_log,
                  add_task_log s dag_id run_id task_id try_number task_log))))"

text \<open>
  Every handler from \<open>list_xcom_entries\<close> on begins with
  \<open>store = get_store(instance_id)\<close>. api.py neither defines nor imports \<open>get_store\<close> (it
  imports only \<open>store\<close> from store.py), so evaluating the name raises \<open>NameError\<close> at that
  first statement, and no later statement of the handler runs.

  Each of these handlers is given in two parts: \<open>..._body\<close>, its statements after the
  lookup, working on the store the lookup would return; and \<open>api_...\<close>, the handler as
  written, which does the lookup first. \<open>instance_id\<close> is the query parameter, \<open>default\<close>
  when the request omits it.
\<close>

definition get_store :: "string \<Rightarrow> error + InstanceStore" where
  "get_store instance_id' = Inl (NameError ''get_store'')"

definition with_get_store ::
  "InstanceStore \<Rightarrow> string \<Rightarrow> (InstanceStore \<Rightarrow> (error + 'a) \<times> InstanceStore)
     \<Rightarrow> (error + 'a) \<times> InstanceStore" where
  \<comment> \<open>\<open>store = get_store(instance_id)\<close>, then the rest of the handler on \<open>store\<close>\<close>
  "with_get_store s instance_id' body =
     (case get_store instance_id' of
        Inl e \<Rightarrow> (Inl e, s)
      | Inr store' \<Rightarrow> body store')"

definition create_xcom_entry_body ::
  "InstanceStore \<Rightarrow> string \<Rightarrow> string \<Rightarrow> string \<Rightarrow> XCom
     \<Rightarrow> (error + XCom) \<times> InstanceStore" where
  "create_xcom_entry_body s dag_id run_id task_id xcom =
     (let x1 = xcom\<lparr>xcom_dag_id := dag_id\<rparr>;
          x2 = x1\<lparr>xcom_run_id := Some run_id\<rparr>;
          x3 = x2\<lparr>xcom_task_id := task_id\<rparr>
      in (Inr x3, add_xcom_value s x3))"

definition create_connection_body ::
  "InstanceStore \<Rightarrow> Connection \<Rightarrow> (error + Connection) \<times> InstanceStore" where
  "create_connection_body s connection =
     (if get_connection s (conn_conn_id connection) \<noteq> None
      then (Inl (HTTPException 409
                  (''Connection '' @ conn_conn_id connection @ '' already exists'')), s)
      else (Inr connection, add_connection s connection))"

definition update_connection_body ::
  "InstanceStore \<Rightarrow> string \<Rightarrow> Connection \<Rightarrow> (error + Connection) \<times> InstanceStore" where
  "update_connection_body s conn_id connection =
     (if get_connection s conn_id = None
      then (Inl (HTTPException 404 (''Connection '' @ conn_id @ '' not found'')), s)
      else (let c1 = connection\<lparr>conn_conn_id := conn_id\<rparr>
            in (Inr c1, add_connection s c1)))"

definition create_variable_body ::
  "InstanceStore \<Rightarrow> Variable \<Rightarrow> (error + Variable) \<times> InstanceStore" where
  "create_variable_body s variable =
     (if get_variable s (var_key variable) \<noteq> None
      then (Inl (HTTPException 409
                  (''Variable '' @ var_key variable @ '' already exists'')), s)
      else (Inr variable, add_variable s variable))"

definition update_variable_body ::
  "InstanceStore \<Rightarrow> string \<Rightarrow> Variable \<Rightarrow> (error + Variable) \<times> InstanceStore" where
  "update_variable_body s key variable =
     (if get_variable s key = None
      then (Inl (HTTPException 404 (''Variable '' @ key @ '' not found'')), s)
      else (let v1 = variable\<lparr>var_key := key\<rparr>
            in (Inr v1, add_variable s v1)))"

text \<open>The body of a pool request is built into a \<open>Pool\<close> by \<open>Pool.__init__\<close>.\<close>

definition create_pool_body ::
  "InstanceStore \<Rightarrow> PoolData \<Rightarrow> (error + Pool) \<times> InstanceStore" where
  "create_pool_body s body =
     (let pool = Pool_init body
      in if get_pool s (pool_name pool) \<noteq> None
         then (Inl (HTTPException 409 (''Pool '' @ pool_name pool @ '' already exists'')), s)
         else (Inr pool, add_pool s pool))"

definition update_pool_body ::
  "InstanceStore \<Rightarrow> string \<Rightarrow> PoolData \<Rightarrow> (error + Pool) \<times> InstanceStore" where
  "update_pool_body s pool_name' body =
     (let pool = Pool_init body
      in if get_pool s pool_name' = None
         then (Inl (HTTPException 404 (''Pool '' @ pool_name' @ '' not found'')), s)
         else (let p1 = pool\<lparr>pool_name := pool_name'\<rparr>
               in (Inr p1, add_pool s p1)))"

definition update_pool_slots_body ::
  "InstanceStore \<Rightarrow> string \<Rightarrow> int option \<Rightarrow> int option \<Rightarrow> int option
     \<Rightarrow> (error + Pool) \<times> InstanceStore" where
  "update_pool_slots_body s pool_name' occupied_slots queued_slots running_slots =
     (case get_pool s pool_name' of
        None \<Rightarrow> (Inl (HTTPException 404 (''Pool '' @ pool_name' @ '' not found'')), s)
      | Some pool \<Rightarrow>
          (let occupied = (case occupied_slots of Some v \<Rightarrow> v | None \<Rightarrow> pool_occupied_slots pool);
               queued = (case queued_slots of Some v \<Rightarrow> v | None \<Rightarrow> pool_queued_slots pool);
               running = (case running_slots of Some v \<Rightarrow> v | None \<Rightarrow> pool_running_slots pool);
               (updated_pool, s') = update_pool_slots s pool_name' occupied queued running
           in (case updated_pool of
                 None \<Rightarrow>
                   (Inl (HTTPException 500
                          (''Failed to update pool '' @ pool_name' @ '' slots'')), s')
               | Some p \<Rightarrow> (Inr p, s'))))"

definition create_provider_body ::
  "InstanceStore \<Rightarrow> Provider \<Rightarrow> (error + Provider) \<times> InstanceStore" where
  "create_provider_body s provider =
     (if get_provider s (prov_package_name provider) \<noteq> None
      then (Inl (HTTPException 409
                  (''Provider '' @ prov_package_name provider @ '' already exists'')), s)
      else (Inr provider, add_provider s provider))"

definition update_provider_body ::
  "InstanceStore \<Rightarrow> string \<Rightarrow> Provider \<Rightarrow> (error + Provider) \<times> InstanceStore" where
  "update_provider_body s provider_name provider =
     (if get_provider s provider_name = None
      then (Inl (HTTPException 404 (''Provider '' @ provider_name @ '' not found'')), s)
      else (let p1 = provider\<lparr>prov_package_name := provider_name\<rparr>
            in (Inr p1, add_provider s p1)))"

definition api_create_xcom_entry ::
  "InstanceStore \<Rightarrow> string \<Rightarrow> string \<Rightarrow> string \<Rightarrow> XCom \<Rightarrow> string
     \<Rightarrow> (error + XCom) \<times> InstanceStore" where
  "api_create_xcom_entry s dag_id run_id task_id xcom instance_id' =
     with_get_store s instance_id' (\<lambda>store'. create_xcom_entry_body store' dag_id run_id task_id xcom)"

definition api_create_connection ::
  "InstanceStore \<Rightarrow> Connection \<Rightarrow> string \<Rightarrow> (error + Connection) \<times> InstanceStore" where
  "api_create_connection s connection instance_id' =
     with_get_store s instance_id' (\<lambda>store'. create_connection_body store' connection)"

definition api_update_connection ::
  "InstanceStore \<Rightarrow> string \<Rightarrow> Connection \<Rightarrow> string \<Rightarrow> (error + Connection) \<times> InstanceStore" where
  "api_update_connection s conn_id connection instance_id' =
     with_get_store s instance_id' (\<lambda>store'. update_connection_body store' conn_id connection)"

definition api_create_variable ::
  "InstanceStore \<Rightarrow> Variable \<Rightarrow> string \<Rightarrow> (error + Variable) \<times> InstanceStore" where
  "api_create_variable s variable instance_id' =
     with_get_store s instance_id' (\<lambda>store'. create_variable_body store' variable)"

definition api_update_variable ::
  "InstanceStore \<Rightarrow> string \<Rightarrow> Variable \<Rightarrow> string \<Rightarrow> (error + Variable) \<times> InstanceStore" where
  "api_update_variable s key variable instance_id' =
     with_get_store s instance_id' (\<lambda>store'. update_variable_body store' key variable)"

definition api_create_pool ::
  "InstanceStore \<Rightarrow> PoolData \<Rightarrow> string \<Rightarrow> (error + Pool) \<times> InstanceStore" where
  "api_create_pool s body instance_id' =
     with_get_store s instance_id' (\<lambda>store'. create_pool_body store' body)"

definition api_update_pool ::
  "InstanceStore \<Rightarrow> string \<Rightarrow> PoolData \<Rightarrow> string \<Rightarrow> (error + Pool) \<times> InstanceStore" where
  "api_update_pool s pool_name' body instance_id' =
     with_get_store s instance_id' (\<lambda>store'. update_pool_body store' pool_name' body)"

definition api_update_pool_slots ::
  "InstanceStore \<Rightarrow> string \<Rightarrow> int option \<Rightarrow> int option \<Rightarrow> int option \<Rightarrow> string
     \<Rightarrow> (error + Pool) \<times> InstanceStore" where
  "api_update_pool_slots s pool_name' occupied_slots queued_slots running_slots instance_id' =
     with_get_store s instance_id'
       (\<lambda>store'. update_pool_slots_body store' pool_name' occupied_slots queued_slots running_slots)"

definition api_create_provider ::
  "InstanceStore \<Rightarrow> Provider \<Rightarrow> string \<Rightarrow> (error + Provider) \<times> InstanceStore" where
  "api_create_provider s provider instance_id' =
     with_get_store s instance_id' (\<lambda>store'. create_provider_body store' provider)"

definition api_update_provider ::
  "InstanceStore \<Rightarrow> string \<Rightarrow> Provider \<Rightarrow> string \<Rightarrow> (error + Provider) \<times> InstanceStore" where
  "api_update_provider s provider_name provider instance_id' =
     with_get_store s instance_id' (\<lambda>store'. update_provider_body store' provider_name provider)"

text \<open>
  A call of the store's \<open>update_pool_slots\<close> that leaves a count out passes that
  parameter's default, 0.
\<close>

definition update_pool_slots_kw ::
  "InstanceStore \<Rightarrow> string \<Rightarrow> int option \<Rightarrow> int option \<Rightarrow> int option
     \<Rightarrow> Pool option \<times> InstanceStore" where
  "update_pool_slots_kw s name occupied queued running =
     update_pool_slots s name (or_default occupied 0) (or_default queued 0)
       (or_default running 0)"

section \<open>Predicates of the statements\<close>

text \<open>
  The derived field of a pool: \<open>open_slots\<close> is \<open>slots - occupied_slots\<close>; and a store
  all of whose pools have it so.
\<close>

definition pool_inv :: "Pool \<Rightarrow> bool" where
  "pool_inv p = (pool_open_slots p = Some (pool_slots p - pool_occupied_slots p))"

definition pools_inv :: "InstanceStore \<Rightarrow> bool" where
  "pools_inv s = list_all pool_inv (dict_values (pools s))"

text \<open>
  What a clear does to a task instance, and when a clear request is to be carried out:
  it is not a dry run, and the instance passes the filters the request sets.
\<close>

definition cleared :: "TaskInstance \<Rightarrow> TaskInstance" where
  "cleared ti =
     ti\<lparr>ti_state := ''none'', ti_try_number := 1, ti_start_date := None, ti_end_date := None,
        ti_duration := None\<rparr>"

definition clear_wanted :: "ClearTaskInstance \<Rightarrow> TaskInstance \<Rightarrow> bool" where
  "clear_wanted c ti =
     (\<not> clr_dry_run c
      \<and> (clr_only_failed c \<longrightarrow> ti_state ti = ''failed'')
      \<and> (clr_only_running c \<longrightarrow> ti_state ti = ''running''))"

section \<open>Example data\<close>

definition ex_store :: InstanceStore where
  "ex_store = InstanceStore_init ''a''"

definition ex_dag :: DAG where
  "ex_dag =
     \<lparr> dag_dag_id = ''d1'', dag_is_paused = False, dag_is_active = True,
       dag_last_parsed_time = 0, dag_last_pickled = 0, dag_last_expired = 0,
       dag_scheduler_lock = None, dag_pickle_id = None, dag_fileloc = ''/tmp/dag.py'',
       dag_owners = [], dag_description = None, dag_schedule_interval = None,
       dag_tags = [] \<rparr>"

definition ex_run :: DAGRun where
  "ex_run =
     \<lparr> run_dag_id = ''d1'', run_run_id = ''r1'', run_execution_date = 0,
       run_start_date = None, run_end_date = None, run_state = ''running'',
       run_external_trigger = False, run_conf = ''{}'' \<rparr>"

definition ex_ti :: TaskInstance where
  "ex_ti =
     \<lparr> ti_task_id = ''t1'', ti_dag_id = ''d1'', ti_run_id = ''r1'', ti_state = ''none'',
       ti_try_number = 1, ti_max_tries = 0, ti_start_date = None, ti_end_date = None,
       ti_duration = None, ti_pool = ''default_pool'', ti_queue = ''default'',
       ti_priority_weight = 1, ti_operator = ''PythonOperator'', ti_queued_when = None,
       ti_queued_by_job_id = None, ti_pid = None, ti_executor_config = ''{}'',
       ti_sla_miss = None, ti_rendered_fields = ''{}'' \<rparr>"

definition ex_log :: TaskLog where
  "ex_log = \<lparr> log_try_number = 1, log_content = ''started'', log_timestamp = 0 \<rparr>"

definition ex_var :: Variable where
  "ex_var = \<lparr> var_key = ''env'', var_value = ''dev'', var_description = None \<rparr>"

definition ex_conn :: Connection where
  "ex_conn =
     \<lparr> conn_conn_id = ''c1'', conn_conn_type = ''http'', conn_host = None, conn_port = None,
       conn_login = None, conn_password = None, conn_connection_schema = None,
       conn_extra = None \<rparr>"

definition ex_xcom :: "string option \<Rightarrow> datetime \<Rightarrow> XCom" where
  \<comment> \<open>an entry of \<open>(d1, t1, k)\<close> with the given run_id and timestamp\<close>
  "ex_xcom r ts =
     \<lparr> xcom_key = ''k'', xcom_value = ''1'', xcom_timestamp = ts, xcom_execution_date = 0,
       xcom_task_id = ''t1'', xcom_dag_id = ''d1'', xcom_run_id = r,
       xcom_description = None \<rparr>"

definition ex_pool_data :: PoolData where
  "ex_pool_data =
     \<lparr> pd_name = ''p1'', pd_slots = 10, pd_description = None, pd_occupied_slots = None,
       pd_queued_slots = None, pd_running_slots = None, pd_open_slots = None \<rparr>"

definition ex_provider :: Provider where
  "ex_provider =
     \<lparr> prov_package_name = ''pkg'', prov_description = None, prov_version = ''1.0'',
       prov_provider_name = ''Pkg'', prov_hooks = [], prov_extra_links = [],
       prov_connection_form = None \<rparr>"

definition ex_xcoms_r1_first :: InstanceStore where
  \<comment> \<open>two entries of \<open>(d1, t1, k)\<close> with the same timestamp, run \<open>r1\<close> stored first\<close>
  "ex_xcoms_r1_first =
     add_xcom_value (add_xcom_value ex_store (ex_xcom (Some ''r1'') 5)) (ex_xcom (Some ''r2'') 5)"

definition ex_xcoms_r2_first :: InstanceStore where
  \<comment> \<open>the same two entries, run \<open>r2\<close> stored first\<close>
  "ex_xcoms_r2_first =
     add_xcom_value (add_xcom_value ex_store (ex_xcom (Some ''r2'') 5)) (ex_xcom (Some ''r1'') 5)"

definition ex_pool_store :: InstanceStore where
  "ex_pool_store = add_pool ex_store (Pool_init ex_pool_data)"

definition ex_pool_store3 :: InstanceStore where
  \<comment> \<open>pool \<open>p1\<close> with 3 of its 10 slots occupied\<close>
  "ex_pool_store3 = snd (update_pool_slots ex_pool_store ''p1'' 3 0 0)"

definition ex_pool3 :: Pool where
  "ex_pool3 =
     \<lparr> pool_name = ''p1'', pool_slots = 10, pool_description = None, pool_occupied_slots = 3,
       pool_queued_slots = 0, pool_running_slots = 0, pool_open_slots = Some 7 \<rparr>"

definition ex_pool_body2 :: PoolData where
  \<comment> \<open>a request body that supplies its own \<open>open_slots\<close>\<close>
  "ex_pool_body2 = ex_pool_data\<lparr>pd_name := ''p2'', pd_open_slots := Some 99\<rparr>"

definition ex_ti_store :: InstanceStore where
  "ex_ti_store = add_task_instance ex_store ex_ti"

definition ex_now :: clock where
  \<comment> \<open>in microseconds: 100 s, 107 s, 114 s, ...\<close>
  "ex_now = (\<lambda>k. 100000000 + 7000000 * int k)"

definition ex_later :: clock where
  \<comment> \<open>in microseconds: 250 s, then a microsecond later each time\<close>
  "ex_later = (\<lambda>k. 250000000 + int k)"

definition ex_ti_running :: TaskInstance where
  "ex_ti_running =
     ex_ti\<lparr>ti_state := ''running'', ti_start_date := Some 100000000, ti_end_date := None\<rparr>"

definition ex_ti_running_store :: InstanceStore where
  "ex_ti_running_store =
     snd (api_set_task_instance_state ex_ti_store ex_now ''d1'' ''r1'' ''t1'' ''running'')"

definition ex_ti_failed :: TaskInstance where
  "ex_ti_failed =
     ex_ti\<lparr>ti_state := ''failed'', ti_try_number := 3, ti_start_date := Some 10,
           ti_end_date := Some 20, ti_duration := Some 5\<rparr>"

definition ex_failed_store :: InstanceStore where
  "ex_failed_store = add_task_instance ex_store ex_ti_failed"

definition ex_clear :: ClearTaskInstance where
  "ex_clear =
     \<lparr> clr_dry_run = False, clr_start_date = None, clr_end_date = None,
       clr_only_failed = False, clr_only_running = False, clr_include_subdags = False,
       clr_include_parentdag = False, clr_reset_dag_runs = False \<rparr>"

definition ex_full_store :: InstanceStore where
  "ex_full_store =
     add_provider
       (add_pool (add_variable (add_connection ex_store ex_conn) ex_var) (Pool_init ex_pool_data))
       ex_provider"

definition ex_dag_store :: InstanceStore where
  "ex_dag_store = add_dag ex_store ex_dag"

definition ex_process :: Process where
  "ex_process =
     \<lparr> server = \<lparr> servers = [(''a'', \<lparr> srv_port = 8080, srv_shut_down = False \<rparr>)] \<rparr>,
       store = \<lparr> instances = [(''a'', ex_ti_store)] \<rparr> \<rparr>"

definition ex_strftime :: "datetime \<Rightarrow> string" where
  "ex_strftime d = ''1970-01-01T00:00:00''"

section \<open>Dictionaries\<close>

lemma dict_get_set: "dict_get (dict_set d k v) k' = (if k' = k then Some v else dict_get d k')"
  by (simp add: dict_get_def dict_set_def update_conv')

lemma dict_get_or_set: "dict_get_or (dict_set d k v) k' = (if k' = k then v else dict_get_or d k')"
  by (simp add: dict_get_or_def dict_set_def update_conv')

lemma dict_contains_set: "dict_contains k' (dict_set d k v) = (k' = k \<or> dict_contains k' d)"
  by (simp add: dict_contains_def dict_set_def update_conv')

lemma dict_get_or_setdefault: "dict_get_or (dict_setdefault_empty d k) k' = dict_get_or d k'"
  by (simp add: dict_setdefault_empty_def dict_get_or_set) (simp add: dict_get_or_def dict_contains_def)

lemma dict_contains_setdefault:
  "dict_contains k' (dict_setdefault_empty d k) = (k' = k \<or> dict_contains k' d)"
  by (auto simp add: dict_setdefault_empty_def dict_contains_set)

lemma dict_set_set: "dict_set (dict_set d k v) k w = dict_set d k w"
  by (simp add: dict_set_def)

lemma dict_setdefault_set: "dict_setdefault_empty (dict_set d k v) k = dict_set d k v"
  by (simp add: dict_setdefault_empty_def dict_contains_set)

lemma dict_setdefault_idem:
  "dict_setdefault_empty (dict_setdefault_empty d k) k = dict_setdefault_empty d k"
  by (simp add: dict_setdefault_empty_def dict_contains_set)

lemma dict_set_setdefault: "dict_set (dict_setdefault_empty d k) k v = dict_set d k v"
  by (simp add: dict_setdefault_empty_def dict_set_set)

section \<open>The store lookup of the later handlers\<close>

text \<open>
  \<open>get_store\<close> is bound nowhere, so the lookup raises; a handler that begins with it
  returns that error and leaves the store as it was, whatever its later statements are.
\<close>

lemma with_get_store_raises:
  "with_get_store s instance_id' body = (Inl (NameError ''get_store''), s)"
  by (simp add: with_get_store_def get_store_def)

lemma get_store_handlers_raise:
  "api_create_xcom_entry s dag_id run_id task_id xcom i = (Inl (NameError ''get_store''), s)"
  "api_create_connection s connection i = (Inl (NameError ''get_store''), s)"
  "api_update_connection s conn_id connection i = (Inl (NameError ''get_store''), s)"
  "api_create_variable s variable i = (Inl (NameError ''get_store''), s)"
  "api_update_variable s key variable i = (Inl (NameError ''get_store''), s)"
  "api_create_pool s body i = (Inl (NameError ''get_store''), s)"
  "api_update_pool s pname body i = (Inl (NameError ''get_store''), s)"
  "api_update_pool_slots s pname occupied_slots queued_slots running_slots i
     = (Inl (NameError ''get_store''), s)"
  "api_create_provider s provider i = (Inl (NameError ''get_store''), s)"
  "api_update_provider s provider_name provider i = (Inl (NameError ''get_store''), s)"
  by (simp_all add: api_create_xcom_entry_def api_create_connection_def
      api_update_connection_def api_create_variable_def api_update_variable_def
      api_create_pool_def api_update_pool_def api_update_pool_slots_def
      api_create_provider_def api_update_provider_def with_get_store_raises)

section \<open>Upsert and get (C1)\<close>

lemma get_add_dag: "get_dag (add_dag s e) (dag_dag_id e) = Some e"
  by (simp add: get_dag_def add_dag_def dict_get_set)

lemma get_add_dag_run: "get_dag_run (add_dag_run s e) (run_dag_id e) (run_run_id e) = Some e"
  by (simp add: get_dag_run_def add_dag_run_def Let_def dict_get_set dict_get_or_set)

lemma get_add_task_instance:
  "get_task_instance (add_task_instance s e) (ti_dag_id e) (ti_run_id e) (ti_task_id e) = Some e"
  by (simp add: get_task_instance_def add_task_instance_def Let_def dict_get_set dict_get_or_set)

lemma get_add_task_log: "get_task_log (add_task_log s d r t n e) d r t n = Some e"
  by (simp add: get_task_log_def add_task_log_def Let_def dict_get_set dict_get_or_set)

lemma get_add_xcom:
  "truthy_str (xcom_run_id e) \<Longrightarrow>
   get_xcom_value (add_xcom_value s e) (xcom_dag_id e) (xcom_task_id e) (xcom_key e) (xcom_run_id e) = Some e"
  by (simp add: get_xcom_value_def xcom_entries_def add_xcom_value_def Let_def dict_get_set
      dict_get_or_set)

lemma add_xcom_falsy:
  "\<not> truthy_str (xcom_run_id e) \<Longrightarrow>
   xcom_values (add_xcom_value s e) d t k = xcom_values s d t k"
  by (simp add: xcom_values_def xcom_entries_def add_xcom_value_def Let_def dict_get_set
      dict_get_or_set dict_get_or_setdefault)

lemma add_dag_run_twice:
  "run_dag_id e1 = run_dag_id e2 \<Longrightarrow> run_run_id e1 = run_run_id e2 \<Longrightarrow>
   add_dag_run (add_dag_run s e1) e2 = add_dag_run s e2"
  by (simp add: add_dag_run_def Let_def dict_get_or_set dict_set_set dict_setdefault_set
      dict_set_setdefault dict_get_or_setdefault)

lemma add_task_instance_twice:
  "ti_dag_id e1 = ti_dag_id e2 \<Longrightarrow> ti_run_id e1 = ti_run_id e2 \<Longrightarrow> ti_task_id e1 = ti_task_id e2 \<Longrightarrow>
   add_task_instance (add_task_instance s e1) e2 = add_task_instance s e2"
  by (simp add: add_task_instance_def Let_def dict_get_or_set dict_set_set dict_setdefault_set
      dict_set_setdefault dict_get_or_setdefault)

lemma add_task_log_twice:
  "add_task_log (add_task_log s d r t n e1) d r t n e2 = add_task_log s d r t n e2"
  by (simp add: add_task_log_def Let_def dict_get_or_set dict_set_set dict_setdefault_set
      dict_set_setdefault dict_get_or_setdefault)

lemma add_xcom_twice:
  "xcom_dag_id e1 = xcom_dag_id e2 \<Longrightarrow> xcom_task_id e1 = xcom_task_id e2 \<Longrightarrow> xcom_key e1 = xcom_key e2 \<Longrightarrow>
   xcom_run_id e1 = xcom_run_id e2 \<Longrightarrow>
   add_xcom_value (add_xcom_value s e1) e2 = add_xcom_value s e2"
  by (simp add: add_xcom_value_def Let_def dict_get_or_set dict_set_set dict_setdefault_set
      dict_set_setdefault dict_get_or_setdefault)

lemma add_dag_twice:
  "dag_dag_id e1 = dag_dag_id e2 \<Longrightarrow> add_dag (add_dag s e1) e2 = add_dag s e2"
  by (simp add: add_dag_def dict_set_set)

lemma get_add_variable: "get_variable (add_variable s e) (var_key e) = Some e"
  by (simp add: get_variable_def add_variable_def dict_get_set)

lemma add_variable_twice:
  "var_key e1 = var_key e2 \<Longrightarrow> add_variable (add_variable s e1) e2 = add_variable s e2"
  by (simp add: add_variable_def dict_set_set)

lemma get_add_connection: "get_connection (add_connection s e) (conn_conn_id e) = Some e"
  by (simp add: get_connection_def add_connection_def dict_get_set)

lemma add_connection_twice:
  "conn_conn_id e1 = conn_conn_id e2 \<Longrightarrow>
   add_connection (add_connection s e1) e2 = add_connection s e2"
  by (simp add: add_connection_def dict_set_set)

lemma get_add_pool: "get_pool (add_pool s e) (pool_name e) = Some e"
  by (simp add: get_pool_def add_pool_def dict_get_set)

lemma add_pool_twice:
  "pool_name e1 = pool_name e2 \<Longrightarrow> add_pool (add_pool s e1) e2 = add_pool s e2"
  by (simp add: add_pool_def dict_set_set)

lemma get_add_provider: "get_provider (add_provider s e) (prov_package_name e) = Some e"
  by (simp add: get_provider_def add_provider_def dict_get_set)

lemma add_provider_twice:
  "prov_package_name e1 = prov_package_name e2 \<Longrightarrow>
   add_provider (add_provider s e1) e2 = add_provider s e2"
  by (simp add: add_provider_def dict_set_set)

text \<open>
  C1, as the code has it. For every kind of entity, \<open>get\<close> with the natural key of an
  entity just upserted returns that entity, and an upsert over an upsert with the same
  key leaves the store that the second upsert alone gives (the first payload is gone).
  For an XCom this holds when its \<open>run_id\<close> is truthy; an XCom whose \<open>run_id\<close> is
  \<open>None\<close> or empty is not stored: the entries of every \<open>(dag_id, task_id, key)\<close> are
  what they were.
\<close>

theorem upsert_get_replace:
  "get_dag (add_dag s dag) (dag_dag_id dag) = Some dag
   \<and> (dag_dag_id dag0 = dag_dag_id dag \<longrightarrow> add_dag (add_dag s dag0) dag = add_dag s dag)
   \<and> get_dag_run (add_dag_run s run) (run_dag_id run) (run_run_id run) = Some run
   \<and> (run_dag_id run0 = run_dag_id run \<and> run_run_id run0 = run_run_id run
        \<longrightarrow> add_dag_run (add_dag_run s run0) run = add_dag_run s run)
   \<and> get_task_instance (add_task_instance s ti) (ti_dag_id ti) (ti_run_id ti) (ti_task_id ti)
        = Some ti
   \<and> (ti_dag_id ti0 = ti_dag_id ti \<and> ti_run_id ti0 = ti_run_id ti \<and> ti_task_id ti0 = ti_task_id ti
        \<longrightarrow> add_task_instance (add_task_instance s ti0) ti = add_task_instance s ti)
   \<and> get_task_log (add_task_log s d r t n lg) d r t n = Some lg
   \<and> add_task_log (add_task_log s d r t n lg0) d r t n lg = add_task_log s d r t n lg
   \<and> get_variable (add_variable s v) (var_key v) = Some v
   \<and> (var_key v0 = var_key v \<longrightarrow> add_variable (add_variable s v0) v = add_variable s v)
   \<and> get_connection (add_connection s c) (conn_conn_id c) = Some c
   \<and> (conn_conn_id c0 = conn_conn_id c
        \<longrightarrow> add_connection (add_connection s c0) c = add_connection s c)
   \<and> get_pool (add_pool s p) (pool_name p) = Some p
   \<and> (pool_name p0 = pool_name p \<longrightarrow> add_pool (add_pool s p0) p = add_pool s p)
   \<and> get_provider (add_provider s pr) (prov_package_name pr) = Some pr
   \<and> (prov_package_name pr0 = prov_package_name pr
        \<longrightarrow> add_provider (add_provider s pr0) pr = add_provider s pr)
   \<and> (truthy_str (xcom_run_id x)
        \<longrightarrow> get_xcom_value (add_xcom_value s x) (xcom_dag_id x) (xcom_task_id x) (xcom_key x)
              (xcom_run_id x) = Some x)
   \<and> (xcom_dag_id x0 = xcom_dag_id x \<and> xcom_task_id x0 = xcom_task_id x
        \<and> xcom_key x0 = xcom_key x \<and> xcom_run_id x0 = xcom_run_id x
        \<longrightarrow> add_xcom_value (add_xcom_value s x0) x = add_xcom_value s x)
   \<and> (\<not> truthy_str (xcom_run_id y)
        \<longrightarrow> xcom_values (add_xcom_value s y) d' t' k' = xcom_values s d' t' k')"
  using get_add_dag add_dag_twice get_add_dag_run add_dag_run_twice get_add_task_instance
    add_task_instance_twice get_add_task_log add_task_log_twice get_add_variable
    add_variable_twice get_add_connection add_connection_twice get_add_pool add_pool_twice
    get_add_provider add_provider_twice get_add_xcom add_xcom_twice add_xcom_falsy
  by (intro conjI impI) simp_all

theorem upsert_get_replace_witness:
  "dag_dag_id (ex_dag\<lparr>dag_is_paused := True\<rparr>) = dag_dag_id ex_dag
   \<and> add_dag (add_dag ex_store (ex_dag\<lparr>dag_is_paused := True\<rparr>)) ex_dag = add_dag ex_store ex_dag
   \<and> run_dag_id (ex_run\<lparr>run_state := ''failed''\<rparr>) = run_dag_id ex_run
   \<and> run_run_id (ex_run\<lparr>run_state := ''failed''\<rparr>) = run_run_id ex_run
   \<and> add_dag_run (add_dag_run ex_store (ex_run\<lparr>run_state := ''failed''\<rparr>)) ex_run
        = add_dag_run ex_store ex_run
   \<and> ti_dag_id (ex_ti\<lparr>ti_state := ''failed''\<rparr>) = ti_dag_id ex_ti
   \<and> ti_run_id (ex_ti\<lparr>ti_state := ''failed''\<rparr>) = ti_run_id ex_ti
   \<and> ti_task_id (ex_ti\<lparr>ti_state := ''failed''\<rparr>) = ti_task_id ex_ti
   \<and> add_task_instance (add_task_instance ex_store (ex_ti\<lparr>ti_state := ''failed''\<rparr>)) ex_ti
        = add_task_instance ex_store ex_ti
   \<and> var_key (ex_var\<lparr>var_value := ''prod''\<rparr>) = var_key ex_var
   \<and> add_variable (add_variable ex_store (ex_var\<lparr>var_value := ''prod''\<rparr>)) ex_var
        = add_variable ex_store ex_var
   \<and> conn_conn_id (ex_conn\<lparr>conn_conn_type := ''aws''\<rparr>) = conn_conn_id ex_conn
   \<and> add_connection (add_connection ex_store (ex_conn\<lparr>conn_conn_type := ''aws''\<rparr>)) ex_conn
        = add_connection ex_store ex_conn
   \<and> pool_name ((Pool_init ex_pool_data)\<lparr>pool_slots := 5\<rparr>) = pool_name (Pool_init ex_pool_data)
   \<and> add_pool (add_pool ex_store ((Pool_init ex_pool_data)\<lparr>pool_slots := 5\<rparr>))
          (Pool_init ex_pool_data)
        = add_pool ex_store (Pool_init ex_pool_data)
   \<and> prov_package_name (ex_provider\<lparr>prov_version := ''2.0''\<rparr>) = prov_package_name ex_provider
   \<and> add_provider (add_provider ex_store (ex_provider\<lparr>prov_version := ''2.0''\<rparr>)) ex_provider
        = add_provider ex_store ex_provider
   \<and> truthy_str (xcom_run_id (ex_xcom (Some ''r1'') 5))
   \<and> get_xcom_value (add_xcom_value ex_store (ex_xcom (Some ''r1'') 5)) ''d1'' ''t1'' ''k''
        (Some ''r1'') = Some (ex_xcom (Some ''r1'') 5)
   \<and> xcom_dag_id (ex_xcom (Some ''r1'') 3) = xcom_dag_id (ex_xcom (Some ''r1'') 5)
   \<and> xcom_task_id (ex_xcom (Some ''r1'') 3) = xcom_task_id (ex_xcom (Some ''r1'') 5)
   \<and> xcom_key (ex_xcom (Some ''r1'') 3) = xcom_key (ex_xcom (Some ''r1'') 5)
   \<and> xcom_run_id (ex_xcom (Some ''r1'') 3) = xcom_run_id (ex_xcom (Some ''r1'') 5)
   \<and> add_xcom_value (add_xcom_value ex_store (ex_xcom (Some ''r1'') 3)) (ex_xcom (Some ''r1'') 5)
        = add_xcom_value ex_store (ex_xcom (Some ''r1'') 5)
   \<and> \<not> truthy_str (xcom_run_id (ex_xcom None 5))
   \<and> xcom_values (add_xcom_value ex_store (ex_xcom None 5)) ''d1'' ''t1'' ''k''
        = xcom_values ex_store ''d1'' ''t1'' ''k''"
  using upsert_get_replace [where s = ex_store
      and dag = ex_dag and ?dag0.0 = "ex_dag\<lparr>dag_is_paused := True\<rparr>"
      and run = ex_run and ?run0.0 = "ex_run\<lparr>run_state := ''failed''\<rparr>"
      and ti = ex_ti and ?ti0.0 = "ex_ti\<lparr>ti_state := ''failed''\<rparr>"
      and v = ex_var and ?v0.0 = "ex_var\<lparr>var_value := ''prod''\<rparr>"
      and c = ex_conn and ?c0.0 = "ex_conn\<lparr>conn_conn_type := ''aws''\<rparr>"
      and p = "Pool_init ex_pool_data" and ?p0.0 = "(Pool_init ex_pool_data)\<lparr>pool_slots := 5\<rparr>"
      and pr = ex_provider and ?pr0.0 = "ex_provider\<lparr>prov_version := ''2.0''\<rparr>"
      and x = "ex_xcom (Some ''r1'') 5" and ?x0.0 = "ex_xcom (Some ''r1'') 3"
      and y = "ex_xcom None 5" and d' = "''d1''" and t' = "''t1''" and k' = "''k''"]
  by (simp add: ex_xcom_def truthy_str_def)

text \<open>
  C1 as stated fails for an XCom without a \<open>run_id\<close>: after the upsert into the empty
  store, the lookup with the entry's own key finds nothing.
\<close>

theorem upsert_xcom_without_run_id_counterexample:
  "get_xcom_value (add_xcom_value ex_store (ex_xcom None 5)) ''d1'' ''t1'' ''k'' None
     \<noteq> Some (ex_xcom None 5)"
  by (simp add: get_xcom_value_def add_xcom_value_def xcom_values_def xcom_entries_def
      ex_store_def InstanceStore_init_def ex_xcom_def truthy_str_def Let_def
      dict_setdefault_empty_def dict_contains_def dict_set_def dict_get_or_def dict_values_def)

section \<open>XCom lookup without a run (C2)\<close>

lemma max_from_first:
  "\<exists>pre post. best # xs = pre @ max_from f best xs # post
     \<and> (\<forall>y\<in>set pre. f y < f (max_from f best xs))
     \<and> (\<forall>y\<in>set post. f y \<le> f (max_from f best xs))"
proof (induction xs arbitrary: best)
  case Nil
  have "[best] = [] @ max_from f best [] # []
        \<and> (\<forall>y\<in>set []. f y < f (max_from f best []))
        \<and> (\<forall>y\<in>set []. f y \<le> f (max_from f best []))"
    by simp
  then show ?case by blast
next
  case (Cons x xs)
  show ?case
  proof (cases "f x > f best")
    case True
    from Cons.IH [of x] obtain pre post where
      split: "x # xs = pre @ max_from f x xs # post"
      and lt: "\<forall>y\<in>set pre. f y < f (max_from f x xs)"
      and le: "\<forall>y\<in>set post. f y \<le> f (max_from f x xs)"
      by blast
    have "x \<in> set (pre @ max_from f x xs # post)"
      using split by (metis list.set_intros(1))
    then have "f x \<le> f (max_from f x xs)"
      using lt le by fastforce
    with True have best_lt: "f best < f (max_from f x xs)" by simp
    have m_eq: "max_from f best (x # xs) = max_from f x xs"
      using True by simp
    have "best # x # xs = (best # pre) @ max_from f best (x # xs) # post
          \<and> (\<forall>y\<in>set (best # pre). f y < f (max_from f best (x # xs)))
          \<and> (\<forall>y\<in>set post. f y \<le> f (max_from f best (x # xs)))"
      unfolding m_eq using split lt le best_lt by simp
    then show ?thesis by blast
  next
    case False
    have m_eq: "max_from f best (x # xs) = max_from f best xs"
      using False by simp
    from Cons.IH [of best] obtain pre post where
      split: "best # xs = pre @ max_from f best xs # post"
      and lt: "\<forall>y\<in>set pre. f y < f (max_from f best xs)"
      and le: "\<forall>y\<in>set post. f y \<le> f (max_from f best xs)"
      by blast
    show ?thesis
    proof (cases pre)
      case Nil
      with split have b: "max_from f best xs = best" and xs: "xs = post" by auto
      have "best # x # xs = [] @ max_from f best (x # xs) # (x # post)
          \<and> (\<forall>y\<in>set []. f y < f (max_from f best (x # xs)))
          \<and> (\<forall>y\<in>set (x # post). f y \<le> f (max_from f best (x # xs)))"
        unfolding m_eq b using False le xs b by auto
      then show ?thesis by blast
    next
      case (Cons p pre')
      with split have b: "p = best" and xs: "xs = pre' @ max_from f best xs # post" by auto
      from lt Cons b have best_lt: "f best < f (max_from f best xs)" by simp
      have lt': "\<forall>y\<in>set pre'. f y < f (max_from f best xs)"
        using lt Cons by simp
      have "best # x # xs = (best # x # pre') @ max_from f best (x # xs) # post
          \<and> (\<forall>y\<in>set (best # x # pre'). f y < f (max_from f best (x # xs)))
          \<and> (\<forall>y\<in>set post. f y \<le> f (max_from f best (x # xs)))"
        unfolding m_eq using False lt' le best_lt xs by auto
      then show ?thesis by blast
    qed
  qed
qed

lemma py_max_first:
  "xs \<noteq> [] \<Longrightarrow>
   \<exists>m pre post. py_max f xs = Some m \<and> xs = pre @ m # post
     \<and> (\<forall>y\<in>set pre. f y < f m) \<and> (\<forall>y\<in>set post. f y \<le> f m)"
  using max_from_first [of "hd xs" "tl xs" f]
  by (cases xs) (auto simp: py_max_def)

lemma xcom_entries_add:
  "xcom_entries (add_xcom_value s x) d t k =
     (if d = xcom_dag_id x \<and> t = xcom_task_id x \<and> k = xcom_key x \<and> truthy_str (xcom_run_id x)
      then dict_set (xcom_entries s d t k) (the (xcom_run_id x)) x
      else xcom_entries s d t k)"
  by (simp add: xcom_entries_def add_xcom_value_def Let_def dict_get_or_set
      dict_get_or_setdefault)

lemma xcom_entries_init: "xcom_entries (InstanceStore_init i) d t k = []"
  by (simp add: xcom_entries_def InstanceStore_init_def dict_get_or_def)

lemma ex_r1_first_entries:
  "xcom_entries ex_xcoms_r1_first ''d1'' ''t1'' ''k''
     = [(''r1'', ex_xcom (Some ''r1'') 5), (''r2'', ex_xcom (Some ''r2'') 5)]"
  by (simp add: ex_xcoms_r1_first_def ex_store_def xcom_entries_add xcom_entries_init
      ex_xcom_def truthy_str_def dict_set_def)

lemma ex_r2_first_entries:
  "xcom_entries ex_xcoms_r2_first ''d1'' ''t1'' ''k''
     = [(''r2'', ex_xcom (Some ''r2'') 5), (''r1'', ex_xcom (Some ''r1'') 5)]"
  by (simp add: ex_xcoms_r2_first_def ex_store_def xcom_entries_add xcom_entries_init
      ex_xcom_def truthy_str_def dict_set_def)

text \<open>
  C2, as the code has it. A lookup whose \<open>run_id\<close> is omitted (\<open>None\<close>) or empty
  returns nothing when \<open>(dag_id, task_id, key)\<close> has no entries; otherwise it returns an
  entry of maximal timestamp among them, and among several entries of that maximal
  timestamp the one that comes first in the order in which their runs were first stored:
  every entry before it is strictly older, every entry after it is not newer. No
  secondary key takes part.
\<close>

theorem xcom_lookup_without_run_id:
  "\<not> truthy_str run_id \<Longrightarrow>
   (xcom_values s d t k = [] \<longrightarrow> get_xcom_value s d t k run_id = None)
   \<and> (xcom_values s d t k \<noteq> [] \<longrightarrow>
        (\<exists>x pre post.
           get_xcom_value s d t k run_id = Some x
           \<and> xcom_values s d t k = pre @ x # post
           \<and> (\<forall>y\<in>set pre. xcom_timestamp y < xcom_timestamp x)
           \<and> (\<forall>y\<in>set post. xcom_timestamp y \<le> xcom_timestamp x)))"
  using py_max_first [of "xcom_values s d t k" xcom_timestamp]
  by (simp add: get_xcom_value_def Let_def)

theorem xcom_lookup_without_run_id_witness:
  "\<not> truthy_str None
   \<and> xcom_values ex_xcoms_r2_first ''d1'' ''t1'' ''k'' \<noteq> []
   \<and> (\<exists>x pre post.
         get_xcom_value ex_xcoms_r2_first ''d1'' ''t1'' ''k'' None = Some x
         \<and> xcom_values ex_xcoms_r2_first ''d1'' ''t1'' ''k'' = pre @ x # post
         \<and> (\<forall>y\<in>set pre. xcom_timestamp y < xcom_timestamp x)
         \<and> (\<forall>y\<in>set post. xcom_timestamp y \<le> xcom_timestamp x))"
proof -
  have h1: "\<not> truthy_str None"
    by (simp add: truthy_str_def)
  have h2: "xcom_values ex_xcoms_r2_first ''d1'' ''t1'' ''k'' \<noteq> []"
    by (simp add: xcom_values_def ex_r2_first_entries dict_values_def)
  from xcom_lookup_without_run_id [OF h1, of ex_xcoms_r2_first "''d1''" "''t1''" "''k''"] h1 h2
  show ?thesis by blast
qed

text \<open>
  C2 as stated fails on a tie. The two stores hold the same two entries of
  \<open>(d1, t1, k)\<close>, both with timestamp 5, for the runs \<open>r1\<close> and \<open>r2\<close>; they differ only
  in which run was stored first, and the lookup returns the one stored first in each.
\<close>

theorem xcom_tie_counterexample:
  "set (xcom_values ex_xcoms_r1_first ''d1'' ''t1'' ''k'')
     = set (xcom_values ex_xcoms_r2_first ''d1'' ''t1'' ''k'')
   \<and> get_xcom_value ex_xcoms_r1_first ''d1'' ''t1'' ''k'' None = Some (ex_xcom (Some ''r1'') 5)
   \<and> get_xcom_value ex_xcoms_r2_first ''d1'' ''t1'' ''k'' None = Some (ex_xcom (Some ''r2'') 5)
   \<and> ex_xcom (Some ''r1'') 5 \<noteq> ex_xcom (Some ''r2'') 5"
  by (auto simp add: get_xcom_value_def xcom_values_def ex_r1_first_entries ex_r2_first_entries
      dict_values_def py_max_def truthy_str_def ex_xcom_def)

section \<open>Pool slot updates and what the request omits (C3)\<close>

lemma get_pool_set: "get_pool (s\<lparr>pools := dict_set (pools s) name p\<rparr>) name = Some p"
  by (simp add: get_pool_def dict_get_set)

lemma update_pool_slots_Some:
  "get_pool s name = Some pool \<Longrightarrow>
   update_pool_slots s name occupied queued running =
     (let p = pool\<lparr>pool_occupied_slots := occupied, pool_queued_slots := queued,
                    pool_running_slots := running,
                    pool_open_slots := Some (pool_slots pool - occupied)\<rparr>
      in (Some p, s\<lparr>pools := dict_set (pools s) name p\<rparr>))"
  by (simp add: update_pool_slots_def Let_def)

lemma update_pool_slots_body_Some:
  "get_pool s name = Some pool \<Longrightarrow>
   update_pool_slots_body s name occupied_slots queued_slots running_slots =
     (let p = pool\<lparr>pool_occupied_slots := or_default occupied_slots (pool_occupied_slots pool),
                    pool_queued_slots := or_default queued_slots (pool_queued_slots pool),
                    pool_running_slots := or_default running_slots (pool_running_slots pool),
                    pool_open_slots :=
                      Some (pool_slots pool
                            - or_default occupied_slots (pool_occupied_slots pool))\<rparr>
      in (Inr p, s\<lparr>pools := dict_set (pools s) name p\<rparr>))"
  by (simp add: update_pool_slots_body_def update_pool_slots_Some Let_def or_default_def
      split: option.splits)

text \<open>
  The statements of the slot-update handler that follow the store lookup, on an existing
  pool: each count the request omits keeps the value the pool had, each one supplied takes
  the supplied value, \<open>open_slots\<close> is \<open>slots\<close> minus the resulting \<open>occupied_slots\<close>, and
  name, capacity and description stay.
\<close>

lemma update_pool_slots_body_keeps_omitted:
  assumes "get_pool s name = Some pool"
  shows "\<exists>p. update_pool_slots_body s name occupied_slots queued_slots running_slots
               = (Inr p, s\<lparr>pools := dict_set (pools s) name p\<rparr>)
          \<and> get_pool (snd (update_pool_slots_body s name occupied_slots queued_slots
                              running_slots)) name = Some p
          \<and> (occupied_slots = None \<longrightarrow> pool_occupied_slots p = pool_occupied_slots pool)
          \<and> (queued_slots = None \<longrightarrow> pool_queued_slots p = pool_queued_slots pool)
          \<and> (running_slots = None \<longrightarrow> pool_running_slots p = pool_running_slots pool)
          \<and> (\<forall>v. occupied_slots = Some v \<longrightarrow> pool_occupied_slots p = v)
          \<and> (\<forall>v. queued_slots = Some v \<longrightarrow> pool_queued_slots p = v)
          \<and> (\<forall>v. running_slots = Some v \<longrightarrow> pool_running_slots p = v)
          \<and> pool_open_slots p = Some (pool_slots pool - pool_occupied_slots p)
          \<and> pool_slots p = pool_slots pool
          \<and> pool_name p = pool_name pool
          \<and> pool_description p = pool_description pool"
  using update_pool_slots_body_Some [OF assms, of occupied_slots queued_slots running_slots]
  by (simp add: Let_def get_pool_set or_default_def)

lemma ex_pool_store_pools: "pools ex_pool_store = [(''p1'', Pool_init ex_pool_data)]"
  by (simp add: ex_pool_store_def add_pool_def dict_set_def ex_store_def
      InstanceStore_init_def Pool_init_def Pool_fields_def ex_pool_data_def)

lemma ex_pool_store_get: "get_pool ex_pool_store ''p1'' = Some (Pool_init ex_pool_data)"
  by (simp add: get_pool_def dict_get_def ex_pool_store_pools)

lemma ex_pool_store3_pools: "pools ex_pool_store3 = [(''p1'', ex_pool3)]"
  by (simp add: ex_pool_store3_def update_pool_slots_Some [OF ex_pool_store_get] Let_def
      or_default_def ex_pool_store_pools dict_set_def Pool_init_def Pool_fields_def
      ex_pool_data_def ex_pool3_def)

lemma ex_pool_store3_get: "get_pool ex_pool_store3 ''p1'' = Some ex_pool3"
  by (simp add: get_pool_def dict_get_def ex_pool_store3_pools)

lemma ex_update_slots_p1:
  "fst (update_pool_slots_body ex_pool_store3 ''p1'' None (Some 2) None)
     = Inr (ex_pool3\<lparr>pool_queued_slots := 2\<rparr>)"
  by (simp add: update_pool_slots_body_Some [OF ex_pool_store3_get] Let_def or_default_def
      ex_pool3_def)

text \<open>
  C3 does not hold of the code. The scenario of the specification: pool \<open>p1\<close> has 10 slots,
  3 of them occupied and none queued, and a slot update supplies only \<open>queued_slots = 2\<close>.

  The handler raises \<open>NameError\<close> at its first statement, the lookup of the undefined
  \<open>get_store\<close>: the request fails and the pool is as before, so \<open>queued_slots\<close> does not
  become 2. The slot update that can run, the store's \<open>update_pool_slots\<close> called with only
  the queued count, takes its defaults for the counts left out: \<open>occupied_slots\<close> goes from
  3 to 0 and \<open>open_slots\<close> from 7 to 10, so an omitted field does not keep its value there
  either. Only the statements of the handler that the lookup keeps from running would give
  what the claim says: occupied 3, queued 2, open 7.
\<close>

theorem pool_slot_update_raises:
  "get_pool ex_pool_store3 ''p1''
     = Some \<lparr> pool_name = ''p1'', pool_slots = 10, pool_description = None,
              pool_occupied_slots = 3, pool_queued_slots = 0, pool_running_slots = 0,
              pool_open_slots = Some 7 \<rparr>
   \<and> api_update_pool_slots ex_pool_store3 ''p1'' None (Some 2) None ''default''
       = (Inl (NameError ''get_store''), ex_pool_store3)
   \<and> get_pool (snd (api_update_pool_slots ex_pool_store3 ''p1'' None (Some 2) None ''default''))
         ''p1''
       = Some \<lparr> pool_name = ''p1'', pool_slots = 10, pool_description = None,
                pool_occupied_slots = 3, pool_queued_slots = 0, pool_running_slots = 0,
                pool_open_slots = Some 7 \<rparr>
   \<and> fst (update_pool_slots_kw ex_pool_store3 ''p1'' None (Some 2) None)
       = Some \<lparr> pool_name = ''p1'', pool_slots = 10, pool_description = None,
                pool_occupied_slots = 0, pool_queued_slots = 2, pool_running_slots = 0,
                pool_open_slots = Some 10 \<rparr>
   \<and> fst (update_pool_slots_body ex_pool_store3 ''p1'' None (Some 2) None)
       = Inr \<lparr> pool_name = ''p1'', pool_slots = 10, pool_description = None,
               pool_occupied_slots = 3, pool_queued_slots = 2, pool_running_slots = 0,
               pool_open_slots = Some 7 \<rparr>"
proof -
  have kw: "fst (update_pool_slots_kw ex_pool_store3 ''p1'' None (Some 2) None)
       = Some \<lparr> pool_name = ''p1'', pool_slots = 10, pool_description = None,
                pool_occupied_slots = 0, pool_queued_slots = 2, pool_running_slots = 0,
                pool_open_slots = Some 10 \<rparr>"
    by (simp add: update_pool_slots_kw_def or_default_def
        update_pool_slots_Some [OF ex_pool_store3_get] Let_def ex_pool3_def)
  show ?thesis
    using ex_pool_store3_get kw ex_update_slots_p1
    by (simp add: get_store_handlers_raise ex_pool3_def)
qed


section \<open>open_slots is always derived (C4)\<close>

lemma list_all_values_update:
  "list_all P (map snd al) \<Longrightarrow> P v \<Longrightarrow> list_all P (map snd (AList.update k v al))"
  by (induction al) auto

lemma pools_inv_set:
  "pools_inv s \<Longrightarrow> pool_inv p \<Longrightarrow> pools_inv (s\<lparr>pools := dict_set (pools s) name p\<rparr>)"
  by (simp add: pools_inv_def dict_values_def dict_set_def list_all_values_update)

lemma pool_inv_init: "pool_inv (Pool_init data)"
  by (simp add: pool_inv_def Pool_init_def Let_def)

lemma Pool_init_ignores_open_slots: "Pool_init (data\<lparr>pd_open_slots := v\<rparr>) = Pool_init data"
  by (simp add: Pool_init_def Pool_fields_def Let_def)

lemma pools_inv_create: "pools_inv s \<Longrightarrow> pools_inv (snd (create_pool_body s body))"
  using pools_inv_set [of s "Pool_init body" "pool_name (Pool_init body)"]
  by (simp add: create_pool_body_def Let_def add_pool_def pool_inv_init)

lemma pools_inv_update: "pools_inv s \<Longrightarrow> pools_inv (snd (update_pool_body s name body))"
  using pools_inv_set [of s "(Pool_init body)\<lparr>pool_name := name\<rparr>" name] pool_inv_init [of body]
  by (simp add: update_pool_body_def Let_def add_pool_def pool_inv_def)

lemma store_update_pool_slots_inv:
  "update_pool_slots s name occupied queued running = (Some p, s') \<Longrightarrow> pool_inv p"
  by (auto simp add: update_pool_slots_def Let_def pool_inv_def split: option.splits)

lemma pools_inv_store_update_slots:
  "pools_inv s \<Longrightarrow> pools_inv (snd (update_pool_slots s name occupied queued running))"
proof (cases "get_pool s name")
  case None
  then show "pools_inv s \<Longrightarrow> ?thesis" by (simp add: update_pool_slots_def)
next
  case (Some pool)
  assume inv: "pools_inv s"
  show ?thesis
    using update_pool_slots_Some [OF Some, of occupied queued running]
      pools_inv_set [OF inv, of
        "pool\<lparr>pool_occupied_slots := occupied, pool_queued_slots := queued,
              pool_running_slots := running,
              pool_open_slots := Some (pool_slots pool - occupied)\<rparr>" name]
    by (simp add: Let_def pool_inv_def)
qed

lemma update_pool_slots_body_snd:
  "snd (update_pool_slots_body s name occ que run) =
     (case get_pool s name of
        None \<Rightarrow> s
      | Some pool \<Rightarrow>
          snd (update_pool_slots s name (or_default occ (pool_occupied_slots pool))
                 (or_default que (pool_queued_slots pool))
                 (or_default run (pool_running_slots pool))))"
  by (simp add: update_pool_slots_body_def Let_def or_default_def update_pool_slots_def
      split: option.splits)

lemma pools_inv_api_update_slots:
  "pools_inv s \<Longrightarrow> pools_inv (snd (update_pool_slots_body s name occ que run))"
  by (simp add: update_pool_slots_body_snd pools_inv_store_update_slots split: option.splits)

lemma update_pool_slots_body_result_inv:
  "fst (update_pool_slots_body s name occ que run) = Inr p \<Longrightarrow> pool_inv p"
proof (cases "get_pool s name")
  case None
  then show "fst (update_pool_slots_body s name occ que run) = Inr p \<Longrightarrow> ?thesis"
    by (simp add: update_pool_slots_body_def)
next
  case (Some pool)
  assume "fst (update_pool_slots_body s name occ que run) = Inr p"
  then show ?thesis
    using update_pool_slots_body_Some [OF Some, of occ que run]
    by (auto simp add: Let_def pool_inv_def)
qed

lemma create_pool_body_result_inv: "fst (create_pool_body s body) = Inr p \<Longrightarrow> pool_inv p"
  using pool_inv_init [of body]
  by (auto simp add: create_pool_body_def Let_def split: if_splits)

lemma update_pool_body_result_inv: "fst (update_pool_body s name body) = Inr p \<Longrightarrow> pool_inv p"
  using pool_inv_init [of body]
  by (auto simp add: update_pool_body_def Let_def pool_inv_def split: if_splits)

text \<open>
  C4. A pool built by \<open>Pool.__init__\<close> has \<open>open_slots = slots - occupied_slots\<close>, whatever
  \<open>open_slots\<close> the data supplies; the empty store has the invariant. Every pool operation
  keeps it for all pools of the store: the store's \<open>update_pool_slots\<close>; the statements of
  the create, update and slot-update handlers that follow the store lookup; and these
  handlers as written, which raise at the lookup and leave the store as it was. Every pool
  these operations return has it.
\<close>

theorem open_slots_derived:
  "pool_inv (Pool_init data)
   \<and> Pool_init (data\<lparr>pd_open_slots := v\<rparr>) = Pool_init data
   \<and> pools_inv (InstanceStore_init i)
   \<and> (pools_inv s \<longrightarrow> pools_inv (snd (create_pool_body s body)))
   \<and> (pools_inv s \<longrightarrow> pools_inv (snd (update_pool_body s name body)))
   \<and> (pools_inv s \<longrightarrow> pools_inv (snd (update_pool_slots_body s name occ que run)))
   \<and> (pools_inv s \<longrightarrow> pools_inv (snd (update_pool_slots s name occupied queued running)))
   \<and> (pools_inv s \<longrightarrow> pools_inv (snd (api_create_pool s body iid)))
   \<and> (pools_inv s \<longrightarrow> pools_inv (snd (api_update_pool s name body iid)))
   \<and> (pools_inv s \<longrightarrow> pools_inv (snd (api_update_pool_slots s name occ que run iid)))
   \<and> (fst (create_pool_body s body) = Inr p1 \<longrightarrow> pool_inv p1)
   \<and> (fst (update_pool_body s name body) = Inr p2 \<longrightarrow> pool_inv p2)
   \<and> (fst (update_pool_slots_body s name occ que run) = Inr p3 \<longrightarrow> pool_inv p3)
   \<and> (fst (update_pool_slots s name occupied queued running) = Some p4 \<longrightarrow> pool_inv p4)"
proof -
  have init: "pools_inv (InstanceStore_init i)"
    by (simp add: pools_inv_def InstanceStore_init_def dict_values_def)
  have st: "fst (update_pool_slots s name occupied queued running) = Some p4 \<longrightarrow> pool_inv p4"
    using store_update_pool_slots_inv [of s name occupied queued running p4]
    by (cases "update_pool_slots s name occupied queued running") auto
  show ?thesis
    using pool_inv_init Pool_init_ignores_open_slots init pools_inv_create pools_inv_update
      pools_inv_api_update_slots pools_inv_store_update_slots create_pool_body_result_inv
      update_pool_body_result_inv update_pool_slots_body_result_inv st
    by (intro conjI impI) (simp_all add: get_store_handlers_raise)
qed


lemma ex_pool_store3_inv: "pools_inv ex_pool_store3"
  by (simp add: pools_inv_def ex_pool_store3_pools dict_values_def pool_inv_def ex_pool3_def)

lemma ex_create_p2:
  "fst (create_pool_body ex_pool_store3 ex_pool_body2) = Inr (Pool_init ex_pool_body2)"
  by (simp add: create_pool_body_def Let_def get_pool_def dict_get_def ex_pool_store3_pools
      Pool_init_def Pool_fields_def ex_pool_body2_def ex_pool_data_def)

lemma ex_update_p1:
  "fst (update_pool_body ex_pool_store3 ''p1'' ex_pool_body2)
     = Inr ((Pool_init ex_pool_body2)\<lparr>pool_name := ''p1''\<rparr>)"
  by (simp add: update_pool_body_def Let_def ex_pool_store3_get)

lemma ex_store_update_slots_p1:
  "fst (update_pool_slots ex_pool_store3 ''p1'' 4 0 0)
     = Some (ex_pool3\<lparr>pool_occupied_slots := 4, pool_open_slots := Some 6\<rparr>)"
  by (simp add: update_pool_slots_Some [OF ex_pool_store3_get] Let_def ex_pool3_def)

theorem open_slots_derived_witness:
  "pools_inv ex_pool_store3
   \<and> pools_inv (snd (create_pool_body ex_pool_store3 ex_pool_body2))
   \<and> pools_inv (snd (update_pool_body ex_pool_store3 ''p1'' ex_pool_body2))
   \<and> pools_inv (snd (update_pool_slots_body ex_pool_store3 ''p1'' None (Some 2) None))
   \<and> pools_inv (snd (update_pool_slots ex_pool_store3 ''p1'' 4 0 0))
   \<and> pools_inv (snd (api_create_pool ex_pool_store3 ex_pool_body2 ''default''))
   \<and> pools_inv (snd (api_update_pool ex_pool_store3 ''p1'' ex_pool_body2 ''default''))
   \<and> pools_inv (snd (api_update_pool_slots ex_pool_store3 ''p1'' None (Some 2) None ''default''))
   \<and> fst (create_pool_body ex_pool_store3 ex_pool_body2) = Inr (Pool_init ex_pool_body2)
   \<and> pool_inv (Pool_init ex_pool_body2)
   \<and> fst (update_pool_body ex_pool_store3 ''p1'' ex_pool_body2)
        = Inr ((Pool_init ex_pool_body2)\<lparr>pool_name := ''p1''\<rparr>)
   \<and> pool_inv ((Pool_init ex_pool_body2)\<lparr>pool_name := ''p1''\<rparr>)
   \<and> fst (update_pool_slots_body ex_pool_store3 ''p1'' None (Some 2) None)
        = Inr (ex_pool3\<lparr>pool_queued_slots := 2\<rparr>)
   \<and> pool_inv (ex_pool3\<lparr>pool_queued_slots := 2\<rparr>)
   \<and> fst (update_pool_slots ex_pool_store3 ''p1'' 4 0 0)
        = Some (ex_pool3\<lparr>pool_occupied_slots := 4, pool_open_slots := Some 6\<rparr>)
   \<and> pool_inv (ex_pool3\<lparr>pool_occupied_slots := 4, pool_open_slots := Some 6\<rparr>)"
  using open_slots_derived [where s = ex_pool_store3 and body = ex_pool_body2
      and name = "''p1''" and occ = None and que = "Some 2" and run = None
      and occupied = 4 and queued = 0 and running = 0 and iid = "''default''"
      and ?p1.0 = "Pool_init ex_pool_body2"
      and ?p2.0 = "(Pool_init ex_pool_body2)\<lparr>pool_name := ''p1''\<rparr>"
      and ?p3.0 = "ex_pool3\<lparr>pool_queued_slots := 2\<rparr>"
      and ?p4.0 = "ex_pool3\<lparr>pool_occupied_slots := 4, pool_open_slots := Some 6\<rparr>"]
    ex_pool_store3_inv ex_create_p2 ex_update_p1 ex_update_slots_p1 ex_store_update_slots_p1
  by simp

section \<open>Setting the state of a task instance (C5)\<close>

lemma get_add_task_instance_any:
  "get_task_instance (add_task_instance s e) d r t =
     (if d = ti_dag_id e \<and> r = ti_run_id e \<and> t = ti_task_id e then Some e
      else get_task_instance s d r t)"
  by (simp add: get_task_instance_def add_task_instance_def Let_def dict_get_set dict_get_or_set
      dict_get_or_setdefault)

lemma get_write_task_instance:
  "get_task_instance (write_task_instance s d r t e) d r t = Some e"
  by (simp add: get_task_instance_def write_task_instance_def Let_def dict_get_set
      dict_get_or_set)

lemma get_add_write_task_instance:
  "get_task_instance (add_task_instance (write_task_instance s d r t e) e) d r t = Some e"
  by (simp add: get_add_task_instance_any get_write_task_instance)

lemma tick_0: "tick now 0 = now 1"
  by (simp add: tick_def)

lemma api_set_running:
  "get_task_instance s d r t = Some ti \<Longrightarrow>
   api_set_task_instance_state s now d r t ''running'' =
     (let ti' = ti\<lparr>ti_state := ''running'', ti_start_date := Some (now 0), ti_end_date := None\<rparr>
      in (Inr \<lparr> resp_task_id = t, resp_dag_id = d, resp_run_id = r, resp_state = ''running'',
                 resp_message = ''Task instance state set to running'' \<rparr>,
          add_task_instance (write_task_instance s d r t ti') ti'))"
  by (simp add: api_set_task_instance_state_def Let_def)

lemma api_set_terminal:
  "get_task_instance s d r t = Some ti \<Longrightarrow> state \<in> set [''success'', ''failed'', ''skipped''] \<Longrightarrow>
   api_set_task_instance_state s now d r t state =
     (let start' = (case ti_start_date ti of None \<Rightarrow> now 0 | Some sd \<Rightarrow> sd);
          end' = (case ti_start_date ti of None \<Rightarrow> now 1 | Some sd \<Rightarrow> now 0);
          ti' = ti\<lparr>ti_state := state, ti_start_date := Some start', ti_end_date := Some end',
                   ti_duration := Some (total_seconds (end' - start'))\<rparr>
      in (Inr \<lparr> resp_task_id = t, resp_dag_id = d, resp_run_id = r, resp_state = state,
                 resp_message = ''Task instance state set to '' @ state \<rparr>,
          add_task_instance (write_task_instance s d r t ti') ti'))"
  by (cases ti; cases "ti_start_date ti")
    (auto simp add: api_set_task_instance_state_def Let_def tick_0)

text \<open>
  C5. For an existing task instance, setting the state to \<open>running\<close> succeeds and leaves
  the instance with that state, \<open>start_date\<close> the clock's reading and \<open>end_date\<close> \<open>None\<close>.
  Setting it to \<open>success\<close>, \<open>failed\<close> or \<open>skipped\<close> succeeds and leaves the instance with
  that state, \<open>start_date\<close> what it was or, if it was absent, the clock's first reading,
  \<open>end_date\<close> the clock's next reading, and \<open>duration\<close> their difference in seconds (the
  dates count microseconds, so the difference divided by 1000000); all three are set.
  Every other field is as before.
\<close>

theorem set_state_dates:
  assumes "get_task_instance s d r t = Some ti"
  shows "(\<exists>resp s'.
            api_set_task_instance_state s now d r t ''running'' = (Inr resp, s')
            \<and> resp_state resp = ''running''
            \<and> get_task_instance s' d r t
                = Some (ti\<lparr>ti_state := ''running'', ti_start_date := Some (now 0),
                           ti_end_date := None\<rparr>))
         \<and> (state \<in> set [''success'', ''failed'', ''skipped''] \<longrightarrow>
             (\<exists>resp s' start' end'.
                api_set_task_instance_state s now d r t state = (Inr resp, s')
                \<and> resp_state resp = state
                \<and> start' = (case ti_start_date ti of None \<Rightarrow> now 0 | Some sd \<Rightarrow> sd)
                \<and> end' = (case ti_start_date ti of None \<Rightarrow> now 1 | Some sd \<Rightarrow> now 0)
                \<and> get_task_instance s' d r t
                    = Some (ti\<lparr>ti_state := state, ti_start_date := Some start',
                               ti_end_date := Some end',
                               ti_duration :=
                                 Some (real_of_int (end' - start') / 1000000)\<rparr>)))"
  using api_set_running [OF assms, of now] api_set_terminal [OF assms, of state now]
  by (simp add: Let_def get_add_write_task_instance total_seconds_def)

lemma ex_ti_store_get: "get_task_instance ex_ti_store ''d1'' ''r1'' ''t1'' = Some ex_ti"
  by (simp add: ex_ti_store_def get_add_task_instance_any ex_ti_def)

lemma ex_ti_running_store_get:
  "get_task_instance ex_ti_running_store ''d1'' ''r1'' ''t1'' = Some ex_ti_running"
  by (simp add: ex_ti_running_store_def api_set_running [OF ex_ti_store_get] Let_def
      get_add_write_task_instance ex_ti_running_def ex_now_def)

text \<open>
  The scenario of the specification: \<open>(d1, r1, t1)\<close> set to \<open>running\<close> at 100 s, then to
  \<open>success\<close> at 250 s, which gives a duration of 150 seconds; and set to \<open>success\<close> with
  no start date, the clock read at 100 s and 107 s, which gives a duration of 7 seconds.
\<close>

theorem set_state_dates_witness:
  "get_task_instance ex_ti_store ''d1'' ''r1'' ''t1'' = Some ex_ti
   \<and> get_task_instance ex_ti_running_store ''d1'' ''r1'' ''t1'' = Some ex_ti_running
   \<and> ''success'' \<in> set [''success'', ''failed'', ''skipped'']
   \<and> (\<exists>resp s'.
         api_set_task_instance_state ex_ti_store ex_now ''d1'' ''r1'' ''t1'' ''running''
           = (Inr resp, s')
         \<and> get_task_instance s' ''d1'' ''r1'' ''t1'' = Some ex_ti_running)
   \<and> (\<exists>resp s'.
         api_set_task_instance_state ex_ti_store ex_now ''d1'' ''r1'' ''t1'' ''success''
           = (Inr resp, s')
         \<and> get_task_instance s' ''d1'' ''r1'' ''t1''
             = Some (ex_ti\<lparr>ti_state := ''success'', ti_start_date := Some 100000000,
                           ti_end_date := Some 107000000,
                           ti_duration := Some 7\<rparr>))
   \<and> (\<exists>resp s'.
         api_set_task_instance_state ex_ti_running_store ex_later ''d1'' ''r1'' ''t1'' ''success''
           = (Inr resp, s')
         \<and> get_task_instance s' ''d1'' ''r1'' ''t1''
             = Some (ex_ti_running\<lparr>ti_state := ''success'', ti_start_date := Some 100000000,
                                   ti_end_date := Some 250000000,
                                   ti_duration := Some 150\<rparr>))"
proof -
  have mem: "''success'' \<in> set [''success'', ''failed'', ''skipped'']"
    by simp
  have a: "ti_start_date ex_ti = None"
    by (simp add: ex_ti_def)
  have b: "ti_start_date ex_ti_running = Some 100000000"
    by (simp add: ex_ti_running_def)
  from set_state_dates [OF ex_ti_store_get, of ex_now "''success''"] mem a
  have first: "(\<exists>resp s'.
         api_set_task_instance_state ex_ti_store ex_now ''d1'' ''r1'' ''t1'' ''running''
           = (Inr resp, s')
         \<and> get_task_instance s' ''d1'' ''r1'' ''t1'' = Some ex_ti_running)
     \<and> (\<exists>resp s'.
         api_set_task_instance_state ex_ti_store ex_now ''d1'' ''r1'' ''t1'' ''success''
           = (Inr resp, s')
         \<and> get_task_instance s' ''d1'' ''r1'' ''t1''
             = Some (ex_ti\<lparr>ti_state := ''success'', ti_start_date := Some 100000000,
                           ti_end_date := Some 107000000,
                           ti_duration := Some 7\<rparr>))"
    by (simp add: ex_now_def ex_ti_running_def) blast
  from set_state_dates [OF ex_ti_running_store_get, of ex_later "''success''"] mem b
  have second: "\<exists>resp s'.
         api_set_task_instance_state ex_ti_running_store ex_later ''d1'' ''r1'' ''t1'' ''success''
           = (Inr resp, s')
         \<and> get_task_instance s' ''d1'' ''r1'' ''t1''
             = Some (ex_ti_running\<lparr>ti_state := ''success'', ti_start_date := Some 100000000,
                                   ti_end_date := Some 250000000,
                                   ti_duration := Some 150\<rparr>)"
    by (simp add: ex_later_def) blast
  from ex_ti_store_get ex_ti_running_store_get mem first second show ?thesis
    by blast
qed

section \<open>Clearing a task instance (C6)\<close>

lemma api_clear_performed:
  "get_task_instance s d r t = Some ti \<Longrightarrow> clear_wanted c ti \<Longrightarrow>
   api_clear_task_instance s d r t c =
     (Inr \<lparr> resp_task_id = t, resp_dag_id = d, resp_run_id = r, resp_state = ''none'',
             resp_message = ''Task instance cleared'' \<rparr>,
      add_task_instance (write_task_instance s d r t (cleared ti)) (cleared ti))"
  by (auto simp add: api_clear_task_instance_def clear_task_instance_def Let_def cleared_def
      clear_wanted_def)

lemma api_clear_noop:
  "get_task_instance s d r t = Some ti \<Longrightarrow> \<not> clear_wanted c ti \<Longrightarrow>
   api_clear_task_instance s d r t c =
     (Inr \<lparr> resp_task_id = t, resp_dag_id = d, resp_run_id = r, resp_state = ti_state ti,
             resp_message =
               ''Task instance not cleared (dry run or filter conditions not met)'' \<rparr>,
      s)"
  by (auto simp add: api_clear_task_instance_def Let_def clear_wanted_def)

text \<open>
  C6. For an existing task instance, a clear request that is not a dry run and whose
  filters the instance passes (\<open>only_failed\<close>: state \<open>failed\<close>; \<open>only_running\<close>: state
  \<open>running\<close>) succeeds and leaves the instance with state \<open>none\<close>, \<open>try_number\<close> 1 and no
  \<open>start_date\<close>, \<open>end_date\<close> or \<open>duration\<close>, whatever they were. Any other request
  succeeds too, reports that nothing was cleared, and leaves the store as it was.
\<close>

theorem clear_rule:
  assumes "get_task_instance s d r t = Some ti"
  shows "(clear_wanted c ti \<longrightarrow>
            (\<exists>s'. api_clear_task_instance s d r t c
                    = (Inr \<lparr> resp_task_id = t, resp_dag_id = d, resp_run_id = r,
                             resp_state = ''none'',
                             resp_message = ''Task instance cleared'' \<rparr>, s')
                 \<and> get_task_instance s' d r t
                     = Some (ti\<lparr>ti_state := ''none'', ti_try_number := 1,
                                ti_start_date := None, ti_end_date := None,
                                ti_duration := None\<rparr>)))
         \<and> (\<not> clear_wanted c ti \<longrightarrow>
              api_clear_task_instance s d r t c
                = (Inr \<lparr> resp_task_id = t, resp_dag_id = d, resp_run_id = r,
                         resp_state = ti_state ti,
                         resp_message =
                           ''Task instance not cleared (dry run or filter conditions not met)'' \<rparr>,
                   s))"
  using api_clear_performed [OF assms, of c] api_clear_noop [OF assms, of c]
    get_add_write_task_instance [of s d r t "cleared ti"]
  by (auto simp add: cleared_def)

lemma ex_failed_store_get:
  "get_task_instance ex_failed_store ''d1'' ''r1'' ''t1'' = Some ex_ti_failed"
  by (simp add: ex_failed_store_def get_add_task_instance_any ex_ti_failed_def ex_ti_def)

theorem clear_rule_witness:
  "get_task_instance ex_failed_store ''d1'' ''r1'' ''t1'' = Some ex_ti_failed
   \<and> clear_wanted (ex_clear\<lparr>clr_only_failed := True\<rparr>) ex_ti_failed
   \<and> (\<exists>s'. fst (api_clear_task_instance ex_failed_store ''d1'' ''r1'' ''t1''
                   (ex_clear\<lparr>clr_only_failed := True\<rparr>))
              = Inr \<lparr> resp_task_id = ''t1'', resp_dag_id = ''d1'', resp_run_id = ''r1'',
                      resp_state = ''none'', resp_message = ''Task instance cleared'' \<rparr>
          \<and> s' = snd (api_clear_task_instance ex_failed_store ''d1'' ''r1'' ''t1''
                        (ex_clear\<lparr>clr_only_failed := True\<rparr>))
          \<and> get_task_instance s' ''d1'' ''r1'' ''t1'' = Some ex_ti)
   \<and> \<not> clear_wanted (ex_clear\<lparr>clr_only_running := True\<rparr>) ex_ti_failed
   \<and> snd (api_clear_task_instance ex_failed_store ''d1'' ''r1'' ''t1''
            (ex_clear\<lparr>clr_only_running := True\<rparr>)) = ex_failed_store
   \<and> \<not> clear_wanted (ex_clear\<lparr>clr_dry_run := True\<rparr>) ex_ti_failed
   \<and> snd (api_clear_task_instance ex_failed_store ''d1'' ''r1'' ''t1''
            (ex_clear\<lparr>clr_dry_run := True\<rparr>)) = ex_failed_store"
proof -
  have w1: "clear_wanted (ex_clear\<lparr>clr_only_failed := True\<rparr>) ex_ti_failed"
    by (simp add: clear_wanted_def ex_clear_def ex_ti_failed_def)
  have w2: "\<not> clear_wanted (ex_clear\<lparr>clr_only_running := True\<rparr>) ex_ti_failed"
    by (simp add: clear_wanted_def ex_clear_def ex_ti_failed_def)
  have w3: "\<not> clear_wanted (ex_clear\<lparr>clr_dry_run := True\<rparr>) ex_ti_failed"
    by (simp add: clear_wanted_def ex_clear_def)
  have c: "ex_ti_failed\<lparr>ti_state := ''none'', ti_try_number := 1, ti_start_date := None,
             ti_end_date := None, ti_duration := None\<rparr> = ex_ti"
    by (simp add: ex_ti_failed_def ex_ti_def)
  from clear_rule [OF ex_failed_store_get, of "ex_clear\<lparr>clr_only_failed := True\<rparr>"] w1 c
  have p1: "\<exists>s'. fst (api_clear_task_instance ex_failed_store ''d1'' ''r1'' ''t1''
                   (ex_clear\<lparr>clr_only_failed := True\<rparr>))
              = Inr \<lparr> resp_task_id = ''t1'', resp_dag_id = ''d1'', resp_run_id = ''r1'',
                      resp_state = ''none'', resp_message = ''Task instance cleared'' \<rparr>
          \<and> s' = snd (api_clear_task_instance ex_failed_store ''d1'' ''r1'' ''t1''
                        (ex_clear\<lparr>clr_only_failed := True\<rparr>))
          \<and> get_task_instance s' ''d1'' ''r1'' ''t1'' = Some ex_ti"
    by auto
  from clear_rule [OF ex_failed_store_get, of "ex_clear\<lparr>clr_only_running := True\<rparr>"] w2
  have p2: "snd (api_clear_task_instance ex_failed_store ''d1'' ''r1'' ''t1''
            (ex_clear\<lparr>clr_only_running := True\<rparr>)) = ex_failed_store"
    by simp
  from clear_rule [OF ex_failed_store_get, of "ex_clear\<lparr>clr_dry_run := True\<rparr>"] w3
  have p3: "snd (api_clear_task_instance ex_failed_store ''d1'' ''r1'' ''t1''
            (ex_clear\<lparr>clr_dry_run := True\<rparr>)) = ex_failed_store"
    by simp
  from ex_failed_store_get w1 w2 w3 p1 p2 p3 show ?thesis by blast
qed

section \<open>Uniqueness of independently keyed resources (C7)\<close>

lemma pool_name_init: "pool_name (Pool_init body) = pd_name body"
  by (simp add: Pool_init_def Pool_fields_def Let_def)

text \<open>
  The statements of the create and update handlers of connections, variables, pools and
  providers that follow the store lookup: a create whose key is in the store gives 409 and
  leaves the store as it was, an update whose key is not in the store gives 404 and leaves
  the store as it was.
\<close>

lemma uniqueness_after_lookup:
  "(get_connection s (conn_conn_id connection) \<noteq> None \<longrightarrow>
      create_connection_body s connection
        = (Inl (HTTPException 409
                 (''Connection '' @ conn_conn_id connection @ '' already exists'')), s))
   \<and> (get_connection s conn_id = None \<longrightarrow>
        update_connection_body s conn_id connection
          = (Inl (HTTPException 404 (''Connection '' @ conn_id @ '' not found'')), s))
   \<and> (get_variable s (var_key variable) \<noteq> None \<longrightarrow>
        create_variable_body s variable
          = (Inl (HTTPException 409 (''Variable '' @ var_key variable @ '' already exists'')), s))
   \<and> (get_variable s key = None \<longrightarrow>
        update_variable_body s key variable
          = (Inl (HTTPException 404 (''Variable '' @ key @ '' not found'')), s))
   \<and> (get_pool s (pd_name body) \<noteq> None \<longrightarrow>
        create_pool_body s body
          = (Inl (HTTPException 409 (''Pool '' @ pd_name body @ '' already exists'')), s))
   \<and> (get_pool s pname = None \<longrightarrow>
        update_pool_body s pname body
          = (Inl (HTTPException 404 (''Pool '' @ pname @ '' not found'')), s))
   \<and> (get_provider s (prov_package_name provider) \<noteq> None \<longrightarrow>
        create_provider_body s provider
          = (Inl (HTTPException 409
                   (''Provider '' @ prov_package_name provider @ '' already exists'')), s))
   \<and> (get_provider s provider_name = None \<longrightarrow>
        update_provider_body s provider_name provider
          = (Inl (HTTPException 404 (''Provider '' @ provider_name @ '' not found'')), s))"
  by (simp add: create_connection_body_def update_connection_body_def create_variable_body_def
      update_variable_body_def create_pool_body_def update_pool_body_def create_provider_body_def
      update_provider_body_def Let_def pool_name_init)

lemma ex_full_store_fields:
  "connections ex_full_store = [(''c1'', ex_conn)]"
  "variables ex_full_store = [(''env'', ex_var)]"
  "pools ex_full_store = [(''p1'', Pool_init ex_pool_data)]"
  "providers ex_full_store = [(''pkg'', ex_provider)]"
  by (simp_all add: ex_full_store_def add_provider_def add_pool_def add_variable_def
      add_connection_def ex_store_def InstanceStore_init_def dict_set_def ex_conn_def
      ex_var_def ex_provider_def pool_name_init ex_pool_data_def)

lemma ex_full_store_keys:
  "get_connection ex_full_store ''c1'' = Some ex_conn"
  "get_connection ex_full_store ''c2'' = None"
  "get_variable ex_full_store ''env'' = Some ex_var"
  "get_variable ex_full_store ''v2'' = None"
  "get_pool ex_full_store ''p1'' = Some (Pool_init ex_pool_data)"
  "get_pool ex_full_store ''p2'' = None"
  "get_provider ex_full_store ''pkg'' = Some ex_provider"
  "get_provider ex_full_store ''pkg2'' = None"
  by (simp_all add: get_connection_def get_variable_def get_pool_def get_provider_def
      dict_get_def ex_full_store_fields)

lemma ex_keys:
  "conn_conn_id ex_conn = ''c1''" "var_key ex_var = ''env''" "pd_name ex_pool_data = ''p1''"
  "prov_package_name ex_provider = ''pkg''"
  by (simp_all add: ex_conn_def ex_var_def ex_pool_data_def ex_provider_def)

text \<open>
  C7 does not hold of the code. The store holds connection \<open>c1\<close>, variable \<open>env\<close>, pool \<open>p1\<close>
  and provider \<open>pkg\<close>, and holds no \<open>c2\<close>, \<open>v2\<close>, \<open>p2\<close>, \<open>pkg2\<close>. Creating each of the four
  again, and updating each of the four that are missing, raises \<open>NameError\<close> at the
  handler's first statement, the lookup of the undefined \<open>get_store\<close>: the request fails
  with neither Conflict (409) nor NotFound (404). The store is as before. The checks that
  would give 409 and 404 are the statements the lookup keeps from running.
\<close>

theorem uniqueness_handlers_raise:
  "get_connection ex_full_store ''c1'' = Some ex_conn
   \<and> api_create_connection ex_full_store ex_conn ''default''
       = (Inl (NameError ''get_store''), ex_full_store)
   \<and> fst (api_create_connection ex_full_store ex_conn ''default'')
       \<noteq> Inl (HTTPException 409 ''Connection c1 already exists'')
   \<and> get_connection ex_full_store ''c2'' = None
   \<and> api_update_connection ex_full_store ''c2'' ex_conn ''default''
       = (Inl (NameError ''get_store''), ex_full_store)
   \<and> fst (api_update_connection ex_full_store ''c2'' ex_conn ''default'')
       \<noteq> Inl (HTTPException 404 ''Connection c2 not found'')
   \<and> get_variable ex_full_store ''env'' = Some ex_var
   \<and> api_create_variable ex_full_store ex_var ''default''
       = (Inl (NameError ''get_store''), ex_full_store)
   \<and> get_variable ex_full_store ''v2'' = None
   \<and> api_update_variable ex_full_store ''v2'' ex_var ''default''
       = (Inl (NameError ''get_store''), ex_full_store)
   \<and> get_pool ex_full_store ''p1'' = Some (Pool_init ex_pool_data)
   \<and> api_create_pool ex_full_store ex_pool_data ''default''
       = (Inl (NameError ''get_store''), ex_full_store)
   \<and> get_pool ex_full_store ''p2'' = None
   \<and> api_update_pool ex_full_store ''p2'' ex_pool_data ''default''
       = (Inl (NameError ''get_store''), ex_full_store)
   \<and> get_provider ex_full_store ''pkg'' = Some ex_provider
   \<and> api_create_provider ex_full_store ex_provider ''default''
       = (Inl (NameError ''get_store''), ex_full_store)
   \<and> get_provider ex_full_store ''pkg2'' = None
   \<and> api_update_provider ex_full_store ''pkg2'' ex_provider ''default''
       = (Inl (NameError ''get_store''), ex_full_store)
   \<and> create_connection_body ex_full_store ex_conn
       = (Inl (HTTPException 409 ''Connection c1 already exists''), ex_full_store)
   \<and> update_connection_body ex_full_store ''c2'' ex_conn
       = (Inl (HTTPException 404 ''Connection c2 not found''), ex_full_store)"
proof -
  from uniqueness_after_lookup [where s = ex_full_store and connection = ex_conn
      and conn_id = "''c2''"]
  have bodies: "create_connection_body ex_full_store ex_conn
       = (Inl (HTTPException 409 ''Connection c1 already exists''), ex_full_store)
     \<and> update_connection_body ex_full_store ''c2'' ex_conn
       = (Inl (HTTPException 404 ''Connection c2 not found''), ex_full_store)"
    by (simp add: ex_full_store_keys ex_keys)
  show ?thesis
    using bodies by (simp add: get_store_handlers_raise ex_full_store_keys)
qed

section \<open>Existence of parents on create (C8)\<close>

lemma api_create_dag_run_absent:
  "\<not> dict_contains dag_id (dags s) \<Longrightarrow>
   api_create_dag_run s now strftime dag_id dag_run = (Inl (HTTPException 404 ''DAG not found''), s)"
  by (simp add: api_create_dag_run_def)

lemma api_create_dag_run_stores:
  "dict_contains dag_id (dags s) \<Longrightarrow>
   \<exists>run. api_create_dag_run s now strftime dag_id dag_run = (Inr run, add_dag_run s run)
         \<and> run_dag_id run = dag_id"
  by (auto simp add: api_create_dag_run_def Let_def datetime_truthy_def split: prod.splits)

lemma api_create_dag_run_present:
  assumes "dict_contains dag_id (dags s)"
  shows "\<exists>run. api_create_dag_run s now strftime dag_id dag_run = (Inr run, add_dag_run s run)
         \<and> run_dag_id run = dag_id
         \<and> get_dag_run (add_dag_run s run) dag_id (run_run_id run) = Some run"
proof -
  from api_create_dag_run_stores [OF assms, of now strftime dag_run] obtain run where
    r: "api_create_dag_run s now strftime dag_id dag_run = (Inr run, add_dag_run s run)"
      "run_dag_id run = dag_id"
    by blast
  from get_add_dag_run [of s run] r(2)
  have "get_dag_run (add_dag_run s run) dag_id (run_run_id run) = Some run"
    by simp
  with r show ?thesis by blast
qed

lemma api_get_task_logs_absent:
  "1 \<le> n \<Longrightarrow> get_task_log s d r t n = None \<Longrightarrow>
   api_get_task_logs s now d r t n
     = (Inr \<lparr> log_try_number = n,
              log_content = ''No logs found for task '' @ t @ '' (try '' @ str_int n @ '')'',
              log_timestamp = now 0 \<rparr>,
        add_task_log s d r t n
          \<lparr> log_try_number = n,
            log_content = ''No logs found for task '' @ t @ '' (try '' @ str_int n @ '')'',
            log_timestamp = now 0 \<rparr>)"
  by (simp add: api_get_task_logs_def Let_def)

lemma api_get_task_logs_present:
  "1 \<le> n \<Longrightarrow> get_task_log s d r t n = Some l \<Longrightarrow>
   api_get_task_logs s now d r t n = (Inr l, s)"
  by (simp add: api_get_task_logs_def)

lemma api_get_task_logs_rejected:
  "\<not> 1 \<le> n \<Longrightarrow>
   api_get_task_logs s now d r t n
     = (Inl (HTTPException 422 ''try_number: ensure this value is greater than or equal to 1''),
        s)"
  by (simp add: api_get_task_logs_def)

lemma str_int_examples: "str_int 1 = ''1''" "str_int 12 = ''12''"
  by (simp_all add: str_int_def str_nat.simps digit_char_def)

lemma ex_store_empty:
  "dags ex_store = []" "dag_runs ex_store = []" "task_instances ex_store = []"
  "task_logs ex_store = []" "xcoms ex_store = []"
  by (simp_all add: ex_store_def InstanceStore_init_def)

lemma ex_store_no_log: "get_task_log ex_store d r t n = None"
  by (simp add: get_task_log_def dict_get_def dict_get_or_def ex_store_empty)

lemma ex_store_no_parents:
  "get_dag ex_store ''d1'' = None" "get_dag_run ex_store ''d1'' ''r1'' = None"
  "get_task_instance ex_store ''d1'' ''r1'' ''t1'' = None"
  by (simp_all add: get_dag_def get_dag_run_def get_task_instance_def dict_get_def
      dict_get_or_def ex_store_empty)

lemma ex_dag_store_dags: "dags ex_dag_store = [(''d1'', ex_dag)]"
  by (simp add: ex_dag_store_def add_dag_def ex_store_empty dict_set_def ex_dag_def)

text \<open>
  C8, as the code has it. Creating a run under a DAG that is not in the store fails with
  status 404 and leaves the store as it was; under a DAG that is in the store it succeeds
  and the run is stored under that DAG. The pattern does not extend to logs: the only
  request that creates a log entry is the first read of its key, and for a \<open>try_number\<close>
  from 1 on it succeeds and stores the entry whatever DAG, run or task instance the store
  holds.
\<close>

theorem parent_checks:
  "(\<not> dict_contains dag_id (dags s) \<longrightarrow>
      api_create_dag_run s now strftime dag_id dag_run
        = (Inl (HTTPException 404 ''DAG not found''), s))
   \<and> (dict_contains dag_id (dags s) \<longrightarrow>
        (\<exists>run. api_create_dag_run s now strftime dag_id dag_run = (Inr run, add_dag_run s run)
              \<and> run_dag_id run = dag_id
              \<and> get_dag_run (add_dag_run s run) dag_id (run_run_id run) = Some run))
   \<and> (1 \<le> n \<and> get_task_log s dag_id run_id task_id n = None \<longrightarrow>
        (\<exists>entry.
           entry = \<lparr> log_try_number = n,
                     log_content = ''No logs found for task '' @ task_id @ '' (try ''
                                     @ str_int n @ '')'',
                     log_timestamp = now 0 \<rparr>
           \<and> api_get_task_logs s now dag_id run_id task_id n
               = (Inr entry, add_task_log s dag_id run_id task_id n entry)
           \<and> get_task_log (add_task_log s dag_id run_id task_id n entry)
                 dag_id run_id task_id n = Some entry))"
  using api_create_dag_run_absent [of dag_id s now strftime dag_run]
    api_create_dag_run_present [of dag_id s now strftime dag_run]
    api_get_task_logs_absent [of n s dag_id run_id task_id now]
  by (intro conjI impI) (simp_all add: get_add_task_log)

theorem parent_checks_witness:
  "\<not> dict_contains ''d1'' (dags ex_store)
   \<and> api_create_dag_run ex_store ex_now ex_strftime ''d1'' ex_run
       = (Inl (HTTPException 404 ''DAG not found''), ex_store)
   \<and> dict_contains ''d1'' (dags ex_dag_store)
   \<and> (\<exists>run. api_create_dag_run ex_dag_store ex_now ex_strftime ''d1'' ex_run
               = (Inr run, add_dag_run ex_dag_store run)
            \<and> run_dag_id run = ''d1''
            \<and> get_dag_run (add_dag_run ex_dag_store run) ''d1'' (run_run_id run) = Some run)
   \<and> (1::int) \<le> 1
   \<and> get_task_log ex_store ''d1'' ''r1'' ''t1'' 1 = None
   \<and> fst (api_get_task_logs ex_store ex_now ''d1'' ''r1'' ''t1'' 1)
       = Inr \<lparr> log_try_number = 1, log_content = ''No logs found for task t1 (try 1)'',
               log_timestamp = 100000000 \<rparr>
   \<and> get_task_log (snd (api_get_task_logs ex_store ex_now ''d1'' ''r1'' ''t1'' 1))
         ''d1'' ''r1'' ''t1'' 1
       = Some \<lparr> log_try_number = 1, log_content = ''No logs found for task t1 (try 1)'',
                log_timestamp = 100000000 \<rparr>"
proof -
  have h1: "\<not> dict_contains ''d1'' (dags ex_store)"
    by (simp add: dict_contains_def ex_store_empty)
  have h2: "dict_contains ''d1'' (dags ex_dag_store)"
    by (simp add: dict_contains_def ex_dag_store_dags)
  have h4: "get_task_log ex_store ''d1'' ''r1'' ''t1'' 1 = None"
    by (rule ex_store_no_log)
  from parent_checks [of "''d1''" ex_store ex_now ex_strftime ex_run 1 "''r1''" "''t1''"] h1 h4
  have a: "api_create_dag_run ex_store ex_now ex_strftime ''d1'' ex_run
       = (Inl (HTTPException 404 ''DAG not found''), ex_store)
     \<and> fst (api_get_task_logs ex_store ex_now ''d1'' ''r1'' ''t1'' 1)
       = Inr \<lparr> log_try_number = 1, log_content = ''No logs found for task t1 (try 1)'',
               log_timestamp = 100000000 \<rparr>
     \<and> get_task_log (snd (api_get_task_logs ex_store ex_now ''d1'' ''r1'' ''t1'' 1))
         ''d1'' ''r1'' ''t1'' 1
       = Some \<lparr> log_try_number = 1, log_content = ''No logs found for task t1 (try 1)'',
                log_timestamp = 100000000 \<rparr>"
    by (simp add: ex_now_def str_int_examples)
  from parent_checks [of "''d1''" ex_dag_store ex_now ex_strftime ex_run 1 "''r1''" "''t1''"] h2
  have b: "\<exists>run. api_create_dag_run ex_dag_store ex_now ex_strftime ''d1'' ex_run
               = (Inr run, add_dag_run ex_dag_store run)
            \<and> run_dag_id run = ''d1''
            \<and> get_dag_run (add_dag_run ex_dag_store run) ''d1'' (run_run_id run) = Some run"
    by blast
  from h1 h2 h4 a b show ?thesis by simp
qed

text \<open>
  C8 as stated fails for logs under task instances: the empty store has no DAG \<open>d1\<close>, no
  run \<open>(d1, r1)\<close> and no task instance \<open>(d1, r1, t1)\<close>, yet the request that creates the
  log entry of \<open>(d1, r1, t1)\<close>, try 1, does not signal NotFound: it succeeds, and the store
  holds the entry afterwards.
\<close>

theorem log_without_parents_counterexample:
  "get_dag ex_store ''d1'' = None
   \<and> get_dag_run ex_store ''d1'' ''r1'' = None
   \<and> get_task_instance ex_store ''d1'' ''r1'' ''t1'' = None
   \<and> get_task_log ex_store ''d1'' ''r1'' ''t1'' 1 = None
   \<and> fst (api_get_task_logs ex_store ex_now ''d1'' ''r1'' ''t1'' 1)
       = Inr \<lparr> log_try_number = 1, log_content = ''No logs found for task t1 (try 1)'',
               log_timestamp = 100000000 \<rparr>
   \<and> get_task_log (snd (api_get_task_logs ex_store ex_now ''d1'' ''r1'' ''t1'' 1))
         ''d1'' ''r1'' ''t1'' 1
       = Some \<lparr> log_try_number = 1, log_content = ''No logs found for task t1 (try 1)'',
                log_timestamp = 100000000 \<rparr>
   \<and> snd (api_get_task_logs ex_store ex_now ''d1'' ''r1'' ''t1'' 1) \<noteq> ex_store"
proof -
  have one: "(1::int) \<le> 1"
    by simp
  have r: "api_get_task_logs ex_store ex_now ''d1'' ''r1'' ''t1'' 1
       = (Inr \<lparr> log_try_number = 1, log_content = ''No logs found for task t1 (try 1)'',
                log_timestamp = 100000000 \<rparr>,
          add_task_log ex_store ''d1'' ''r1'' ''t1'' 1
            \<lparr> log_try_number = 1, log_content = ''No logs found for task t1 (try 1)'',
              log_timestamp = 100000000 \<rparr>)"
    using api_get_task_logs_absent [where n = 1 and s = ex_store and d = "''d1''"
        and r = "''r1''" and t = "''t1''" and now = ex_now, OF one ex_store_no_log]
    by (simp add: ex_now_def str_int_examples)
  have g: "get_task_log (add_task_log ex_store ''d1'' ''r1'' ''t1'' 1
            \<lparr> log_try_number = 1, log_content = ''No logs found for task t1 (try 1)'',
              log_timestamp = 100000000 \<rparr>) ''d1'' ''r1'' ''t1'' 1
       = Some \<lparr> log_try_number = 1, log_content = ''No logs found for task t1 (try 1)'',
                log_timestamp = 100000000 \<rparr>"
    by (rule get_add_task_log)
  have ne: "add_task_log ex_store ''d1'' ''r1'' ''t1'' 1
            \<lparr> log_try_number = 1, log_content = ''No logs found for task t1 (try 1)'',
              log_timestamp = 100000000 \<rparr> \<noteq> ex_store"
    using g ex_store_no_log [of "''d1''" "''r1''" "''t1''" 1] by auto
  show ?thesis
    using r g ne by (simp add: ex_store_no_parents ex_store_no_log)
qed

section \<open>The registry and stopping an instance (C9)\<close>

lemma get_instance_present:
  "dict_get (instances ms) iid = Some s0 \<Longrightarrow> get_instance ms iid = (s0, ms)"
  by (simp add: get_instance_def dict_get_def dict_contains_def Let_def)

lemma get_instance_absent:
  "\<not> dict_contains iid (instances ms) \<Longrightarrow>
   get_instance ms iid
     = (InstanceStore_init iid,
        ms\<lparr>instances := dict_set (instances ms) iid (InstanceStore_init iid)\<rparr>)"
  by (simp add: get_instance_def Let_def dict_get_set)

lemma get_instance_again: "get_instance (snd (get_instance ms iid)) iid = get_instance ms iid"
proof (cases "dict_contains iid (instances ms)")
  case True
  then obtain s0 where "dict_get (instances ms) iid = Some s0"
    by (auto simp add: dict_contains_def dict_get_def)
  then show ?thesis
    by (simp add: get_instance_present)
next
  case False
  have "dict_get (instances (ms\<lparr>instances := dict_set (instances ms) iid (InstanceStore_init iid)\<rparr>))
          iid = Some (InstanceStore_init iid)"
    by (simp add: dict_get_set)
  then show ?thesis
    using False by (simp add: get_instance_absent get_instance_present)
qed

lemma get_instance_after_request:
  "fst (get_instance (snd (on_instance ms iid f)) iid) = snd (f (fst (get_instance ms iid)))"
proof -
  obtain s ms1 where g: "get_instance ms iid = (s, ms1)"
    by (cases "get_instance ms iid")
  obtain res s' where f: "f s = (res, s')"
    by (cases "f s")
  have "dict_get (instances (ms1\<lparr>instances := dict_set (instances ms1) iid s'\<rparr>)) iid = Some s'"
    by (simp add: dict_get_set)
  then show ?thesis
    using g f by (simp add: on_instance_def get_instance_present)
qed

lemma stop_instance_store: "store (stop_instance p iid) = store p"
  by (simp add: stop_instance_def)

lemma stop_instance_servers: "\<not> dict_contains iid (servers (server (stop_instance p iid)))"
  by (simp add: stop_instance_def dict_contains_def delete_conv')

text \<open>
  C9, as the code has it. A lookup repeated for the same identifier returns the same store
  and leaves the registry as the first lookup left it; an identifier the registry holds is
  looked up without any change, one it does not hold gets a new empty store; what a
  request does to the store of an identifier is what a later lookup returns. Stopping an
  instance removes its server from the server table and leaves the registry untouched, so
  a lookup after the stop returns what it returned before the stop.
\<close>

theorem registry_lookup:
  "get_instance (snd (get_instance ms iid)) iid = get_instance ms iid
   \<and> (dict_get (instances ms) iid = Some s0 \<longrightarrow> get_instance ms iid = (s0, ms))
   \<and> (\<not> dict_contains iid (instances ms) \<longrightarrow>
        get_instance ms iid
          = (InstanceStore_init iid,
             ms\<lparr>instances := dict_set (instances ms) iid (InstanceStore_init iid)\<rparr>))
   \<and> fst (get_instance (snd (on_instance ms iid f)) iid) = snd (f (fst (get_instance ms iid)))
   \<and> \<not> dict_contains iid (servers (server (stop_instance p iid)))
   \<and> store (stop_instance p iid) = store p
   \<and> get_instance (store (stop_instance p iid)) iid = get_instance (store p) iid"
  using get_instance_again [of ms iid] get_instance_present [of ms iid s0]
    get_instance_absent [of iid ms] get_instance_after_request [of ms iid f]
    stop_instance_servers [of iid p] stop_instance_store [of p iid]
  by (intro conjI impI) simp_all

lemma ex_ti_store_ne_init: "ex_ti_store \<noteq> InstanceStore_init ''a''"
proof
  assume eq: "ex_ti_store = InstanceStore_init ''a''"
  have "get_task_instance (InstanceStore_init ''a'') ''d1'' ''r1'' ''t1'' = None"
    by (simp add: get_task_instance_def InstanceStore_init_def dict_get_or_def dict_get_def)
  with ex_ti_store_get show False
    unfolding eq by simp
qed

theorem registry_lookup_witness:
  "dict_get (instances (store ex_process)) ''a'' = Some ex_ti_store
   \<and> get_instance (store ex_process) ''a'' = (ex_ti_store, store ex_process)
   \<and> \<not> dict_contains ''b'' (instances (store ex_process))
   \<and> fst (get_instance (store ex_process) ''b'') = InstanceStore_init ''b''
   \<and> fst (get_instance (snd (get_instance (store ex_process) ''b'')) ''b'')
       = InstanceStore_init ''b''
   \<and> get_instance (store (stop_instance ex_process ''a'')) ''a''
       = (ex_ti_store, store ex_process)"
proof -
  have h1: "dict_get (instances (store ex_process)) ''a'' = Some ex_ti_store"
    by (simp add: ex_process_def dict_get_def)
  have h2: "\<not> dict_contains ''b'' (instances (store ex_process))"
    by (simp add: ex_process_def dict_contains_def)
  from registry_lookup [of "store ex_process" "''a''" ex_ti_store "\<lambda>s. ((), s)" ex_process] h1
  have a: "get_instance (store ex_process) ''a'' = (ex_ti_store, store ex_process)
     \<and> get_instance (store (stop_instance ex_process ''a'')) ''a''
       = (ex_ti_store, store ex_process)"
    by simp
  from registry_lookup [of "store ex_process" "''b''" ex_ti_store "\<lambda>s. ((), s)" ex_process]
  have c1: "get_instance (snd (get_instance (store ex_process) ''b'')) ''b''
       = get_instance (store ex_process) ''b''"
    and c3: "\<not> dict_contains ''b'' (instances (store ex_process)) \<longrightarrow>
       get_instance (store ex_process) ''b''
         = (InstanceStore_init ''b'',
            (store ex_process)\<lparr>instances :=
               dict_set (instances (store ex_process)) ''b'' (InstanceStore_init ''b'')\<rparr>)"
    by blast+
  from c3 h2 have b1: "fst (get_instance (store ex_process) ''b'') = InstanceStore_init ''b''"
    by simp
  have b: "fst (get_instance (store ex_process) ''b'') = InstanceStore_init ''b''
     \<and> fst (get_instance (snd (get_instance (store ex_process) ''b'')) ''b'')
       = InstanceStore_init ''b''"
    by (subst c1) (simp add: b1)
  from h1 h2 a b show ?thesis by blast
qed

text \<open>
  C9 as stated fails after a stop: the server of instance \<open>a\<close> is gone, and the lookup of
  \<open>a\<close> still returns the store that holds the task instance \<open>(d1, r1, t1)\<close>, not an empty
  one.
\<close>

theorem stop_keeps_store_counterexample:
  "dict_contains ''a'' (servers (server ex_process))
   \<and> \<not> dict_contains ''a'' (servers (server (stop_instance ex_process ''a'')))
   \<and> fst (get_instance (store (stop_instance ex_process ''a'')) ''a'') = ex_ti_store
   \<and> get_task_instance ex_ti_store ''d1'' ''r1'' ''t1'' = Some ex_ti
   \<and> ex_ti_store \<noteq> InstanceStore_init ''a''"
proof -
  have s1: "dict_contains ''a'' (servers (server ex_process))"
    by (simp add: ex_process_def dict_contains_def)
  have h1: "dict_get (instances (store ex_process)) ''a'' = Some ex_ti_store"
    by (simp add: ex_process_def dict_get_def)
  have g: "fst (get_instance (store (stop_instance ex_process ''a'')) ''a'') = ex_ti_store"
    by (simp add: stop_instance_store get_instance_present [OF h1])
  from s1 stop_instance_servers [of "''a''" ex_process] g ex_ti_store_get ex_ti_store_ne_init
  show ?thesis by blast
qed

section \<open>Reading a log that is not stored (C10)\<close>

text \<open>
  C10, as the code has it. The log read never signals NotFound: its only error is the
  rejection (422) of a \<open>try_number\<close> below 1, which leaves the store as it was. For a
  \<open>try_number\<close> from 1 on with no stored entry it returns the entry with that \<open>try_number\<close>,
  content "No logs found for task \<open>task_id\<close> (try \<open>try_number\<close>)" and timestamp the clock's
  reading, and stores it under the key; the entry is then retrievable, and a second read,
  at any later time, returns that same entry and leaves the store as the first read left
  it.
\<close>

theorem log_read_synthesizes:
  "(\<forall>e. fst (api_get_task_logs s now d r t n) = Inl e \<longrightarrow>
        e = HTTPException 422 ''try_number: ensure this value is greater than or equal to 1''
        \<and> \<not> 1 \<le> n)
   \<and> (\<not> 1 \<le> n \<longrightarrow>
        api_get_task_logs s now d r t n
          = (Inl (HTTPException 422
                   ''try_number: ensure this value is greater than or equal to 1''), s))
   \<and> (1 \<le> n \<and> get_task_log s d r t n = None \<longrightarrow>
        (\<exists>entry s'.
           entry = \<lparr> log_try_number = n,
                     log_content = ''No logs found for task '' @ t @ '' (try ''
                                     @ str_int n @ '')'',
                     log_timestamp = now 0 \<rparr>
           \<and> api_get_task_logs s now d r t n = (Inr entry, s')
           \<and> s' = add_task_log s d r t n entry
           \<and> get_task_log s' d r t n = Some entry
           \<and> api_get_task_logs s' now' d r t n = (Inr entry, s')))"
proof -
  let ?entry = "\<lparr> log_try_number = n,
                  log_content = ''No logs found for task '' @ t @ '' (try '' @ str_int n @ '')'',
                  log_timestamp = now 0 \<rparr>"
  have never: "\<forall>e. fst (api_get_task_logs s now d r t n) = Inl e \<longrightarrow>
        e = HTTPException 422 ''try_number: ensure this value is greater than or equal to 1''
        \<and> \<not> 1 \<le> n"
    by (auto simp add: api_get_task_logs_def Let_def split: if_splits option.splits)
  have rejected: "\<not> 1 \<le> n \<longrightarrow>
        api_get_task_logs s now d r t n
          = (Inl (HTTPException 422
                   ''try_number: ensure this value is greater than or equal to 1''), s)"
    by (simp add: api_get_task_logs_rejected)
  have rest: "1 \<le> n \<and> get_task_log s d r t n = None \<longrightarrow>
        api_get_task_logs s now d r t n = (Inr ?entry, add_task_log s d r t n ?entry)
        \<and> get_task_log (add_task_log s d r t n ?entry) d r t n = Some ?entry
        \<and> api_get_task_logs (add_task_log s d r t n ?entry) now' d r t n
            = (Inr ?entry, add_task_log s d r t n ?entry)"
    using api_get_task_logs_absent [of n s d r t now]
      get_add_task_log [of s d r t n ?entry]
      api_get_task_logs_present [of n "add_task_log s d r t n ?entry" d r t ?entry now']
    by simp
  from rest have synthesized: "1 \<le> n \<and> get_task_log s d r t n = None \<longrightarrow>
        (\<exists>entry s'.
           entry = ?entry
           \<and> api_get_task_logs s now d r t n = (Inr entry, s')
           \<and> s' = add_task_log s d r t n entry
           \<and> get_task_log s' d r t n = Some entry
           \<and> api_get_task_logs s' now' d r t n = (Inr entry, s'))"
    by simp
  show ?thesis
    by (intro conjI never rejected synthesized)
qed

text \<open>
  On the empty store: the first read of \<open>(d1, r1, t1)\<close>, try 1, at 100 s, and a second
  read at a later time; the first read of try 12; and a read of try 0.
\<close>

theorem log_read_synthesizes_witness:
  "(1::int) \<le> 1
   \<and> get_task_log ex_store ''d1'' ''r1'' ''t1'' 1 = None
   \<and> fst (api_get_task_logs ex_store ex_now ''d1'' ''r1'' ''t1'' 1)
       = Inr \<lparr> log_try_number = 1, log_content = ''No logs found for task t1 (try 1)'',
               log_timestamp = 100000000 \<rparr>
   \<and> get_task_log (snd (api_get_task_logs ex_store ex_now ''d1'' ''r1'' ''t1'' 1))
         ''d1'' ''r1'' ''t1'' 1
       = Some \<lparr> log_try_number = 1, log_content = ''No logs found for task t1 (try 1)'',
                log_timestamp = 100000000 \<rparr>
   \<and> api_get_task_logs (snd (api_get_task_logs ex_store ex_now ''d1'' ''r1'' ''t1'' 1)) ex_later
         ''d1'' ''r1'' ''t1'' 1
       = (Inr \<lparr> log_try_number = 1, log_content = ''No logs found for task t1 (try 1)'',
                log_timestamp = 100000000 \<rparr>,
          snd (api_get_task_logs ex_store ex_now ''d1'' ''r1'' ''t1'' 1))
   \<and> (1::int) \<le> 12
   \<and> get_task_log ex_store ''d1'' ''r1'' ''t2'' 12 = None
   \<and> fst (api_get_task_logs ex_store ex_later ''d1'' ''r1'' ''t2'' 12)
       = Inr \<lparr> log_try_number = 12, log_content = ''No logs found for task t2 (try 12)'',
               log_timestamp = 250000000 \<rparr>
   \<and> \<not> (1::int) \<le> 0
   \<and> api_get_task_logs ex_store ex_now ''d1'' ''r1'' ''t1'' 0
       = (Inl (HTTPException 422
                ''try_number: ensure this value is greater than or equal to 1''), ex_store)"
proof -
  note at0 = log_read_synthesizes [of ex_store ex_now "''d1''" "''r1''" "''t1''" 0 ex_later]
  from at0 [THEN conjunct2, THEN conjunct1]
  have z: "api_get_task_logs ex_store ex_now ''d1'' ''r1'' ''t1'' 0
       = (Inl (HTTPException 422
                ''try_number: ensure this value is greater than or equal to 1''), ex_store)"
    by simp
  from at0 [THEN conjunct1, THEN spec,
      of "HTTPException 422 ''try_number: ensure this value is greater than or equal to 1''"] z
  have nz: "\<not> (1::int) \<le> 0"
    by simp
  from log_read_synthesizes [of ex_store ex_now "''d1''" "''r1''" "''t1''" 1 ex_later,
      THEN conjunct2, THEN conjunct2]
    ex_store_no_log [of "''d1''" "''r1''" "''t1''" 1]
  have a: "fst (api_get_task_logs ex_store ex_now ''d1'' ''r1'' ''t1'' 1)
       = Inr \<lparr> log_try_number = 1, log_content = ''No logs found for task t1 (try 1)'',
               log_timestamp = 100000000 \<rparr>
   \<and> get_task_log (snd (api_get_task_logs ex_store ex_now ''d1'' ''r1'' ''t1'' 1))
         ''d1'' ''r1'' ''t1'' 1
       = Some \<lparr> log_try_number = 1, log_content = ''No logs found for task t1 (try 1)'',
                log_timestamp = 100000000 \<rparr>
   \<and> api_get_task_logs (snd (api_get_task_logs ex_store ex_now ''d1'' ''r1'' ''t1'' 1)) ex_later
         ''d1'' ''r1'' ''t1'' 1
       = (Inr \<lparr> log_try_number = 1, log_content = ''No logs found for task t1 (try 1)'',
                log_timestamp = 100000000 \<rparr>,
          snd (api_get_task_logs ex_store ex_now ''d1'' ''r1'' ''t1'' 1))"
    by (simp add: ex_now_def str_int_examples)
  from log_read_synthesizes [of ex_store ex_later "''d1''" "''r1''" "''t2''" 12 ex_later,
      THEN conjunct2, THEN conjunct2]
    ex_store_no_log [of "''d1''" "''r1''" "''t2''" 12]
  have b: "fst (api_get_task_logs ex_store ex_later ''d1'' ''r1'' ''t2'' 12)
       = Inr \<lparr> log_try_number = 12, log_content = ''No logs found for task t2 (try 12)'',
               log_timestamp = 250000000 \<rparr>"
    by (simp add: ex_later_def str_int_examples)
  from z nz a b ex_store_no_log show ?thesis by simp
qed

text \<open>
  C10 as stated fails for a \<open>try_number\<close> below 1: no log entry is stored under
  \<open>(d1, r1, t1)\<close>, try 0, yet the read synthesizes and returns no entry: it fails with
  status 422, and no entry is stored under the key afterwards.
\<close>

theorem log_read_rejected_counterexample:
  "get_task_log ex_store ''d1'' ''r1'' ''t1'' 0 = None
   \<and> api_get_task_logs ex_store ex_now ''d1'' ''r1'' ''t1'' 0
       = (Inl (HTTPException 422
                ''try_number: ensure this value is greater than or equal to 1''), ex_store)
   \<and> get_task_log (snd (api_get_task_logs ex_store ex_now ''d1'' ''r1'' ''t1'' 0))
         ''d1'' ''r1'' ''t1'' 0 = None"
  by (simp add: api_get_task_logs_rejected ex_store_no_log)

end
